theory Spec2Isabelle
  imports Complex_Main
begin

section \<open>pywFM: a shallow embedding of \<^verbatim>\<open>src/pywFM/__init__.py\<close>\<close>

text \<open>
  The module wraps the external program libFM: the constructor \<^verbatim>\<open>FM.__init__\<close> stores
  the options, and \<^verbatim>\<open>FM.run\<close> allocates temporary files, writes the data sets,
  builds a command line, runs it through the shell, reads the predictions and the model
  dump back, and removes the temporary files.

  What the module calls but does not define is a parameter of the model: the builtin
  \<^verbatim>\<open>float\<close> and the float formats \<^verbatim>\<open>%f\<close> and \<^verbatim>\<open>%g\<close>, scikit-learn's
  \<^verbatim>\<open>dump_svmlight_file\<close>, the process started by \<^verbatim>\<open>call\<close>, \<^verbatim>\<open>np.matrix\<close> and
  \<^verbatim>\<open>pd.read_csv\<close>. Floats are a type parameter \<open>'f\<close>. An exception is a value of type
  \<open>error\<close>; a function that may raise returns \<open>error + 'a\<close>. The \<^verbatim>\<open>import\<close>
  statements inside \<^verbatim>\<open>run\<close> are taken to succeed.
\<close>

subsection \<open>Exceptions\<close>

datatype error =
    IndexError            \<comment> \<open>\<^verbatim>\<open>task[0]\<close> on an empty string\<close>
  | LibfmPathNotSet       \<comment> \<open>the \<^verbatim>\<open>OSError\<close> raised by \<^verbatim>\<open>__init__\<close> (line 105)\<close>
  | MkstempError          \<comment> \<open>\<^verbatim>\<open>tempfile.mkstemp\<close> found no usable name\<close>
  | DumpError             \<comment> \<open>\<^verbatim>\<open>dump_svmlight_file\<close> rejected its arguments\<close>
  | ValueError            \<comment> \<open>\<^verbatim>\<open>float\<close> on a string that is no float literal\<close>
  | FileNotFoundError     \<comment> \<open>\<^verbatim>\<open>open\<close> or \<^verbatim>\<open>os.remove\<close> on a missing path\<close>
  | BadFileDescriptor     \<comment> \<open>\<^verbatim>\<open>os.close\<close> on a descriptor that is not open\<close>
  | MatrixError           \<comment> \<open>\<^verbatim>\<open>np.matrix\<close> rejected the rows\<close>
  | ReadCsvError          \<comment> \<open>\<^verbatim>\<open>pd.read_csv\<close> rejected the log\<close>
  | UnboundLocalError     \<comment> \<open>a local variable read before its assignment\<close>

subsection \<open>Python string operations used by the module\<close>

text \<open>\<^verbatim>\<open>s.startswith(p)\<close>.\<close>

fun startswith :: "string \<Rightarrow> string \<Rightarrow> bool" where
  "startswith s [] = True"
| "startswith [] (p # ps) = False"
| "startswith (c # cs) (p # ps) = (c = p \<and> startswith cs ps)"

text \<open>\<^verbatim>\<open>sub in s\<close> on strings: \<open>sub\<close> occurs in \<open>s\<close> as a contiguous substring.\<close>

fun str_in :: "string \<Rightarrow> string \<Rightarrow> bool" where
  "str_in sub [] = (sub = [])"
| "str_in sub (c # cs) = (startswith (c # cs) sub \<or> str_in sub cs)"

text \<open>
  \<^verbatim>\<open>s.split(sep)\<close> for a one-character separator (the module splits on \<^verbatim>\<open>'\n'\<close> and
  on \<^verbatim>\<open>' '\<close>): every occurrence of the separator ends a piece, so adjacent separators
  and a trailing separator give empty pieces, and the result is never empty. \<open>acc\<close> holds
  the current piece, reversed.
\<close>

fun split_from :: "char \<Rightarrow> string \<Rightarrow> string \<Rightarrow> string list" where
  "split_from sep acc [] = [rev acc]"
| "split_from sep acc (c # cs) =
     (if c = sep then rev acc # split_from sep [] cs else split_from sep (c # acc) cs)"

definition str_split :: "string \<Rightarrow> char \<Rightarrow> string list" where
  "str_split s sep = split_from sep [] s"

text \<open>
  \<^verbatim>\<open>s.splitlines()\<close>: the line boundaries of a Python string among the code points
  below 256 (a \<open>char\<close> is one such code point): LF, VT, FF, CR, CR LF as one boundary,
  FS, GS, RS and NEL. The boundaries are dropped, and a boundary at the very end opens
  no further line.
\<close>

definition line_boundary :: "char \<Rightarrow> bool" where
  "line_boundary c = (c \<in> set [CHR 0x0A, CHR 0x0B, CHR 0x0C, CHR 0x0D, CHR 0x1C, CHR 0x1D, CHR 0x1E, CHR 0x85])"

fun splitlines_from :: "string \<Rightarrow> string \<Rightarrow> string list" where
  "splitlines_from acc [] = (if acc = [] then [] else [rev acc])"
| "splitlines_from acc [c] =
     (if line_boundary c then [rev acc] else [rev (c # acc)])"
| "splitlines_from acc (c # d # cs) =
     (if c = CHR 0x0D \<and> d = CHR 0x0A then rev acc # splitlines_from [] cs
      else if line_boundary c then rev acc # splitlines_from [] (d # cs)
      else splitlines_from (c # acc) (d # cs))"

definition splitlines :: "string \<Rightarrow> string list" where
  "splitlines s = splitlines_from [] s"

text \<open>\<^verbatim>\<open>sep.join(xs)\<close>.\<close>

fun join :: "string \<Rightarrow> string list \<Rightarrow> string" where
  "join sep [] = []"
| "join sep [x] = x"
| "join sep (x # y # ys) = x @ sep @ join sep (y # ys)"

text \<open>\<^verbatim>\<open>"%d" % n\<close> for an integer: the decimal digits, with a minus sign when negative.\<close>

fun digits :: "nat \<Rightarrow> string" where
  "digits n =
     (if n < 10 then [''0123456789'' ! n]
      else digits (n div 10) @ [''0123456789'' ! (n mod 10)])"

definition fmt_d :: "int \<Rightarrow> string" where
  "fmt_d i = (if i < 0 then CHR ''-'' # digits (nat (- i)) else digits (nat i))"

subsection \<open>Result parsing (lines 193 to 222 of \<^verbatim>\<open>FM.run\<close>)\<close>

text \<open>
  \<^verbatim>\<open>[float(p) for p in ps]\<close>: the comprehension converts from left to right and the
  first string that \<^verbatim>\<open>float\<close> rejects raises \<^verbatim>\<open>ValueError\<close>. The builtin is the
  parameter \<open>float\<close>, with \<open>None\<close> for the raise.
\<close>

fun float_all :: "(string \<Rightarrow> 'f option) \<Rightarrow> string list \<Rightarrow> error + 'f list" where
  "float_all float [] = Inr []"
| "float_all float (p # ps) =
     (case float p of
        None \<Rightarrow> Inl ValueError
      | Some v \<Rightarrow> (case float_all float ps of Inl e \<Rightarrow> Inl e | Inr vs \<Rightarrow> Inr (v # vs)))"

text \<open>
  Lines 194 to 197:
  \<^verbatim>\<open>preds = [float(p) for p in out_read.split('\n') if p]\<close>.
\<close>

definition read_predictions :: "(string \<Rightarrow> 'f option) \<Rightarrow> string \<Rightarrow> error + 'f list" where
  "read_predictions float out_read =
     float_all float (filter (\<lambda>p. p \<noteq> []) (str_split out_read (CHR 0x0A)))"

text \<open>
  Lines 210 to 222, the body of the loop over the lines of the model file. The loop
  state is \<open>(out_iter, global_bias, weights, pairwise_interactions)\<close>. A line starting
  with \<^verbatim>\<open>#\<close> is tested against the three marker texts in the order of the
  \<^verbatim>\<open>if\<close>/\<^verbatim>\<open>elif\<close> chain and changes nothing when none occurs in it; any other line is
  converted according to \<open>out_iter\<close>.
\<close>

type_synonym 'f dump_state = "nat \<times> 'f option \<times> 'f list \<times> 'f list list"

fun model_line :: "(string \<Rightarrow> 'f option) \<Rightarrow> 'f dump_state \<Rightarrow> string \<Rightarrow> error + 'f dump_state" where
  "model_line float (out_iter, global_bias, weights, pairwise_interactions) line =
     (if startswith line ''#'' then
        (if str_in ''#global bias W0'' line then
           Inr (0, global_bias, weights, pairwise_interactions)
         else if str_in ''#unary interactions Wj'' line then
           Inr (1, global_bias, weights, pairwise_interactions)
         else if str_in ''#pairwise interactions Vj,f'' line then
           Inr (2, global_bias, weights, pairwise_interactions)
         else Inr (out_iter, global_bias, weights, pairwise_interactions))
      else if out_iter = 0 then
        (case float line of
           None \<Rightarrow> Inl ValueError
         | Some v \<Rightarrow> Inr (out_iter, Some v, weights, pairwise_interactions))
      else if out_iter = 1 then
        (case float line of
           None \<Rightarrow> Inl ValueError
         | Some v \<Rightarrow> Inr (out_iter, global_bias, weights @ [v], pairwise_interactions))
      else if out_iter = 2 then
        (case float_all float (str_split line (CHR '' '')) of
           Inl e \<Rightarrow> Inl e
         | Inr row \<Rightarrow> Inr (out_iter, global_bias, weights, pairwise_interactions @ [row]))
      else Inr (out_iter, global_bias, weights, pairwise_interactions))"

text \<open>The \<^verbatim>\<open>for\<close> loop of line 209: the lines in order, stopping at the first raise.\<close>

fun model_lines :: "(string \<Rightarrow> 'f option) \<Rightarrow> 'f dump_state \<Rightarrow> string list \<Rightarrow> error + 'f dump_state" where
  "model_lines float st [] = Inr st"
| "model_lines float st (line # rest) =
     (case model_line float st line of
        Inl e \<Rightarrow> Inl e
      | Inr st' \<Rightarrow> model_lines float st' rest)"

text \<open>
  Lines 203 to 222: the initial values (\<^verbatim>\<open>global_bias = None\<close>, two empty lists,
  \<^verbatim>\<open>out_iter = 0\<close>), the loop over \<^verbatim>\<open>f.read().splitlines()\<close>, and the three
  variables the rest of \<^verbatim>\<open>run\<close> uses.
\<close>

definition read_model :: "(string \<Rightarrow> 'f option) \<Rightarrow> string \<Rightarrow> error + ('f option \<times> 'f list \<times> 'f list list)" where
  "read_model float text =
     (case model_lines float (0, None, [], []) (splitlines text) of
        Inl e \<Rightarrow> Inl e
      | Inr (out_iter, global_bias, weights, pairwise_interactions) \<Rightarrow>
          Inr (global_bias, weights, pairwise_interactions))"

subsection \<open>A reader of decimal literals, to instantiate \<open>float\<close> in closed examples\<close>

text \<open>
  The theorems below hold for every \<open>float\<close>. Where an example needs a concrete one,
  \<open>decimal\<close> is used: it accepts an optional minus sign, digits, and optionally a point
  and more digits, and returns the rational number the literal denotes; it rejects
  everything else. It stands for the builtin on such literals only and is no model of
  binary floating point.
\<close>

definition digit_of :: "char \<Rightarrow> nat option" where
  "digit_of c =
     (if c \<in> set ''0123456789''
      then Some (length (takeWhile (\<lambda>d. d \<noteq> c) ''0123456789''))
      else None)"

fun nat_of_digits :: "nat \<Rightarrow> string \<Rightarrow> nat option" where
  "nat_of_digits acc [] = Some acc"
| "nat_of_digits acc (c # cs) =
     (case digit_of c of None \<Rightarrow> None | Some d \<Rightarrow> nat_of_digits (10 * acc + d) cs)"

definition unsigned_decimal :: "string \<Rightarrow> rat option" where
  "unsigned_decimal s =
     (let ip = takeWhile (\<lambda>c. c \<noteq> CHR ''.'') s; rest = dropWhile (\<lambda>c. c \<noteq> CHR ''.'') s in
      if ip = [] then None
      else (case nat_of_digits 0 ip of
              None \<Rightarrow> None
            | Some n \<Rightarrow>
                (case rest of
                   [] \<Rightarrow> Some (of_nat n)
                 | dot # fp \<Rightarrow>
                     (case nat_of_digits 0 fp of
                        None \<Rightarrow> None
                      | Some m \<Rightarrow> Some (of_nat n + of_nat m / 10 ^ length fp)))))"

definition decimal :: "string \<Rightarrow> rat option" where
  "decimal s =
     (case s of
        [] \<Rightarrow> None
      | c # cs \<Rightarrow> if c = CHR ''-'' then map_option uminus (unsigned_decimal cs)
                  else unsigned_decimal s)"

subsection \<open>The world outside the module\<close>

text \<open>
  The part of the operating system that \<^verbatim>\<open>__init__\<close> and \<^verbatim>\<open>run\<close> touch: the
  environment variables, the files (path to contents), the open file descriptors of the
  Python process, and the names \<^verbatim>\<open>tempfile\<close> will try next for a given \<^verbatim>\<open>dir\<close>
  argument. Two histories are kept beside them: every descriptor and path that
  \<^verbatim>\<open>mkstemp\<close> has returned, and every command line that was run.
\<close>

record world =
  environ :: "string \<rightharpoonup> string"
  files :: "string \<rightharpoonup> string"
  open_fds :: "nat list"
  tmp_supply :: "string option \<Rightarrow> string list"
  tmp_log :: "(nat \<times> string) list"
  cmd_log :: "string list"

text \<open>
  An action takes the world and returns a value or an exception, and the world it leaves
  behind. After an exception the world is the one reached when it was raised: the module
  has no \<^verbatim>\<open>try\<close>, \<^verbatim>\<open>finally\<close> or \<^verbatim>\<open>except\<close>.
\<close>

type_synonym 'a io = "world \<Rightarrow> (error + 'a) \<times> world"

definition ret :: "'a \<Rightarrow> 'a io" where
  "ret x = (\<lambda>w. (Inr x, w))"

definition raise :: "error \<Rightarrow> 'a io" where
  "raise e = (\<lambda>w. (Inl e, w))"

definition of_result :: "error + 'a \<Rightarrow> 'a io" where
  "of_result r = (\<lambda>w. (r, w))"

definition bind_io :: "'a io \<Rightarrow> ('a \<Rightarrow> 'b io) \<Rightarrow> 'b io" where
  "bind_io m f = (\<lambda>w. case m w of (Inl e, w') \<Rightarrow> (Inl e, w') | (Inr x, w') \<Rightarrow> f x w')"

text \<open>The lowest descriptor number that is not open, as POSIX \<^verbatim>\<open>open\<close> allocates it.\<close>

fun first_free :: "nat \<Rightarrow> nat \<Rightarrow> nat list \<Rightarrow> nat" where
  "first_free 0 n fds = n"
| "first_free (Suc k) n fds = (if n \<in> set fds then first_free k (Suc n) fds else n)"

definition lowest_free :: "nat list \<Rightarrow> nat" where
  "lowest_free fds = first_free (length fds) 0 fds"

text \<open>
  \<^verbatim>\<open>tempfile.mkstemp(dir=d)\<close>: tries the names offered for \<open>d\<close> in order, creates the
  first one that does not exist yet as an empty file, and returns an open descriptor
  and the path. It raises when every offered name exists.
\<close>

definition mkstemp :: "string option \<Rightarrow> (nat \<times> string) io" where
  "mkstemp d = (\<lambda>w.
     case dropWhile (\<lambda>p. files w p \<noteq> None) (tmp_supply w d) of
       [] \<Rightarrow> (Inl MkstempError, w)
     | p # rest \<Rightarrow>
         (let fd = lowest_free (open_fds w) in
          (Inr (fd, p),
           w\<lparr>files := (files w)(p \<mapsto> []),
             open_fds := fd # open_fds w,
             tmp_supply := (tmp_supply w)(d := rest),
             tmp_log := tmp_log w @ [(fd, p)]\<rparr>)))"

text \<open>\<^verbatim>\<open>os.close(fd)\<close> and \<^verbatim>\<open>os.remove(path)\<close>.\<close>

definition os_close :: "nat \<Rightarrow> unit io" where
  "os_close fd = (\<lambda>w.
     if fd \<in> set (open_fds w) then (Inr (), w\<lparr>open_fds := removeAll fd (open_fds w)\<rparr>)
     else (Inl BadFileDescriptor, w))"

definition os_remove :: "string \<Rightarrow> unit io" where
  "os_remove path = (\<lambda>w.
     if files w path = None then (Inl FileNotFoundError, w)
     else (Inr (), w\<lparr>files := (files w)(path := None)\<rparr>))"

text \<open>
  \<^verbatim>\<open>with open(path) as f: f.read()\<close>: the text of the file as \<^verbatim>\<open>read\<close> returns it, or
  the raise of \<^verbatim>\<open>open\<close>. The \<^verbatim>\<open>with\<close> block closes its own descriptor on every path, so
  the descriptor does not appear in the world.
\<close>

definition read_file :: "string \<Rightarrow> string io" where
  "read_file path = (\<lambda>w.
     case files w path of None \<Rightarrow> (Inl FileNotFoundError, w) | Some text \<Rightarrow> (Inr text, w))"

subsection \<open>What the module imports\<close>

text \<open>
  \<^item> \<open>py_float\<close>: the builtin \<^verbatim>\<open>float\<close> on a string, \<open>None\<close> when it raises;
  \<^item> \<open>fmt_f\<close>, \<open>fmt_g\<close>: \<^verbatim>\<open>"%f" % x\<close> and \<^verbatim>\<open>"%g" % x\<close>;
  \<^item> \<open>dump_svmlight\<close>: the text \<^verbatim>\<open>dump_svmlight_file(X, y, path)\<close> writes, \<open>None\<close>
    when it raises (for instance when \<^verbatim>\<open>X\<close> and \<^verbatim>\<open>y\<close> differ in their number of rows);
  \<^item> \<open>libfm_process\<close>: what running a command line through the shell does to the
    files, and its exit code;
  \<^item> \<open>np_matrix\<close>: \<^verbatim>\<open>np.matrix\<close> on a list of rows, \<open>None\<close> when it raises;
  \<^item> \<open>read_csv\<close>: \<^verbatim>\<open>pd.read_csv(path, sep='\t')\<close> on the text of the file, \<open>None\<close> when
    it raises (as it does on an empty file).
\<close>

record ('f, 'x, 'y, 'm, 'df) externals =
  py_float :: "string \<Rightarrow> 'f option"
  fmt_f :: "'f \<Rightarrow> string"
  fmt_g :: "'f \<Rightarrow> string"
  dump_svmlight :: "'x \<Rightarrow> 'y \<Rightarrow> string option"
  libfm_process :: "string \<Rightarrow> (string \<rightharpoonup> string) \<Rightarrow> int \<times> (string \<rightharpoonup> string)"
  np_matrix :: "'f list list \<Rightarrow> 'm option"
  read_csv :: "string \<Rightarrow> 'df option"

text \<open>\<^verbatim>\<open>dump_svmlight_file(X, y, path)\<close>: writes the file, or raises and writes nothing.\<close>

definition dump_svmlight_file ::
  "('f, 'x, 'y, 'm, 'df) externals \<Rightarrow> 'x \<Rightarrow> 'y \<Rightarrow> string \<Rightarrow> unit io" where
  "dump_svmlight_file E X y path = (\<lambda>w.
     case dump_svmlight E X y of
       None \<Rightarrow> (Inl DumpError, w)
     | Some text \<Rightarrow> (Inr (), w\<lparr>files := (files w)(path \<mapsto> text)\<rparr>))"

text \<open>
  \<^verbatim>\<open>call(args, shell=True)\<close>: runs the command line, waits, and returns the exit code.
  The process changes files only; the descriptors belong to the Python process.
\<close>

definition call :: "('f, 'x, 'y, 'm, 'df) externals \<Rightarrow> string \<Rightarrow> int io" where
  "call E args = (\<lambda>w.
     (Inr (fst (libfm_process E args (files w))),
      w\<lparr>files := snd (libfm_process E args (files w)), cmd_log := cmd_log w @ [args]\<rparr>))"

subsection \<open>The constructor (lines 72 to 105)\<close>

text \<open>The keyword arguments of \<^verbatim>\<open>FM.__init__\<close>.\<close>

record 'f params =
  task :: string
  num_iter :: int
  init_stdev :: 'f
  k0 :: bool
  k1 :: bool
  k2 :: int
  learning_method :: string
  learn_rate :: 'f
  r0_regularization :: 'f
  r1_regularization :: 'f
  r2_regularization :: 'f
  rlog :: bool
  verbose :: bool
  silent :: bool
  temp_path :: "string option"

text \<open>The private attributes of an \<^verbatim>\<open>FM\<close> object, \<^verbatim>\<open>self.__task\<close> and so on.\<close>

record 'f fm =
  fm_task :: char
  fm_num_iter :: int
  fm_init_stdev :: 'f
  fm_dim :: string
  fm_learning_method :: string
  fm_learn_rate :: 'f
  fm_regularization :: string
  fm_rlog :: bool
  fm_verbose :: int
  fm_silent :: bool
  fm_temp_path :: "string option"
  fm_libfm_path :: string

text \<open>\<^verbatim>\<open>int(b)\<close> on a boolean.\<close>

definition int_of_bool :: "bool \<Rightarrow> int" where
  "int_of_bool b = (if b then 1 else 0)"

text \<open>
  \<^verbatim>\<open>FM.__init__\<close>. Line 90 takes \<^verbatim>\<open>task[0]\<close> first, which raises on the empty
  string; the attributes are computed next; the environment is read last (lines 103 to
  105). The constructor reads the environment and touches nothing else of the world.
\<close>

definition FM_init :: "('f, 'x, 'y, 'm, 'df) externals \<Rightarrow> 'f params \<Rightarrow> 'f fm io" where
  "FM_init E kw = (\<lambda>w.
     case task kw of
       [] \<Rightarrow> (Inl IndexError, w)
     | c # cs \<Rightarrow>
         (case environ w ''LIBFM_PATH'' of
            None \<Rightarrow> (Inl LibfmPathNotSet, w)
          | Some libfm_path \<Rightarrow>
              (Inr \<lparr>fm_task = c,
                    fm_num_iter = num_iter kw,
                    fm_init_stdev = init_stdev kw,
                    fm_dim = fmt_d (int_of_bool (k0 kw)) @ '','' @ fmt_d (int_of_bool (k1 kw))
                               @ '','' @ fmt_d (k2 kw),
                    fm_learning_method = learning_method kw,
                    fm_learn_rate = learn_rate kw,
                    fm_regularization = fmt_f E (r0_regularization kw) @ '','' @
                               fmt_f E (r1_regularization kw) @ '','' @
                               fmt_f E (r2_regularization kw),
                    fm_rlog = rlog kw,
                    fm_verbose = int_of_bool (verbose kw),
                    fm_silent = silent kw,
                    fm_temp_path = temp_path kw,
                    fm_libfm_path = libfm_path\<rparr>, w)))"

subsection \<open>\<^verbatim>\<open>FM.run\<close>, first half: temporary files and the command (lines 143 to 186)\<close>

text \<open>
  The local variables that the second half of \<^verbatim>\<open>run\<close> reads. \<^verbatim>\<open>rlog_fd, rlog_path\<close>
  and \<^verbatim>\<open>validation_fd, validation_path\<close> are assigned in a branch only, so they are
  optional here.
\<close>

record temps =
  train_fd :: nat
  train_path :: string
  test_fd :: nat
  test_path :: string
  out_fd :: nat
  out_path :: string
  model_fd :: nat
  model_path :: string
  rlog_tmp :: "(nat \<times> string) option"
  validation_tmp :: "(nat \<times> string) option"

text \<open>
  Lines 166 to 168: \<^verbatim>\<open>if self.__rlog:\<close> allocate a file and append \<^verbatim>\<open>-rlog\<close>.
\<close>

definition append_rlog :: "'f fm \<Rightarrow> string list \<Rightarrow> ((nat \<times> string) option \<times> string list) io" where
  "append_rlog self args =
     (if fm_rlog self then
        bind_io (mkstemp (fm_temp_path self)) (\<lambda>(rlog_fd, rlog_path).
        ret (Some (rlog_fd, rlog_path), args @ [''-rlog '' @ rlog_path]))
      else ret (None, args))"

text \<open>
  Lines 179 to 182: for \<^verbatim>\<open>sgda\<close> and both validation arguments not \<^verbatim>\<open>None\<close>,
  allocate a file, write the validation set to it and append \<^verbatim>\<open>-validation\<close>.
\<close>

definition append_validation ::
  "('f, 'x, 'y, 'm, 'df) externals \<Rightarrow> 'f fm \<Rightarrow> 'x option \<Rightarrow> 'y option \<Rightarrow> string list
     \<Rightarrow> ((nat \<times> string) option \<times> string list) io" where
  "append_validation E self x_validation_set y_validation_set args =
     (if fm_learning_method self = ''sgda'' then
        (case x_validation_set of
           None \<Rightarrow> ret (None, args)
         | Some xv \<Rightarrow>
             (case y_validation_set of
                None \<Rightarrow> ret (None, args)
              | Some yv \<Rightarrow>
                  bind_io (mkstemp (fm_temp_path self)) (\<lambda>(validation_fd, validation_path).
                  bind_io (dump_svmlight_file E xv yv validation_path) (\<lambda>u.
                  ret (Some (validation_fd, validation_path),
                       args @ [''-validation '' @ validation_path])))))
      else ret (None, args))"

text \<open>
  Lines 143 to 186, in the order of the source: four temporary files, the two data
  sets, the list of the ten arguments that are always there, then the conditional
  appends. The result is the list \<^verbatim>\<open>args\<close> before it is joined, and the local variables.
\<close>

definition build_args ::
  "('f, 'x, 'y, 'm, 'df) externals \<Rightarrow> 'f fm \<Rightarrow> 'x \<Rightarrow> 'y \<Rightarrow> 'x \<Rightarrow> 'y \<Rightarrow> 'x option \<Rightarrow> 'y option
     \<Rightarrow> (string list \<times> temps) io" where
  "build_args E self x_train y_train x_test y_test x_validation_set y_validation_set =
     bind_io (mkstemp (fm_temp_path self)) (\<lambda>(train_fd, train_path).
     bind_io (mkstemp (fm_temp_path self)) (\<lambda>(test_fd, test_path).
     bind_io (mkstemp (fm_temp_path self)) (\<lambda>(out_fd, out_path).
     bind_io (mkstemp (fm_temp_path self)) (\<lambda>(model_fd, model_path).
     bind_io (dump_svmlight_file E x_train y_train train_path) (\<lambda>u1.
     bind_io (dump_svmlight_file E x_test y_test test_path) (\<lambda>u2.
     bind_io (append_rlog self
                [fm_libfm_path self @ ''libFM'',
                 ''-task '' @ [fm_task self],
                 ''-train '' @ train_path,
                 ''-test '' @ test_path,
                 ''-dim '' @ [CHR 0x27] @ fm_dim self @ [CHR 0x27],
                 ''-init_stdev '' @ fmt_g E (fm_init_stdev self),
                 ''-iter '' @ fmt_d (fm_num_iter self),
                 ''-method '' @ fm_learning_method self,
                 ''-out '' @ out_path,
                 ''-verbosity '' @ fmt_d (fm_verbose self),
                 ''-save_model '' @ model_path]) (\<lambda>(rlog_tmp, args1).
     let args2 = (if fm_learning_method self \<in> set [''sgd'', ''sgda'']
                  then args1 @ [''-learn_rate '' @ fmt_f E (fm_learn_rate self)]
                  else args1);
         args3 = (if fm_learning_method self \<in> set [''sgd'', ''sgda'', ''als'']
                  then args2 @ [''-regular '' @ [CHR 0x27] @ fm_regularization self @ [CHR 0x27]]
                  else args2)
     in
     bind_io (append_validation E self x_validation_set y_validation_set args3)
       (\<lambda>(validation_tmp, args4).
     ret (if fm_silent self then args4 @ ['' &> /dev/null''] else args4,
          \<lparr>train_fd = train_fd, train_path = train_path,
           test_fd = test_fd, test_path = test_path,
           out_fd = out_fd, out_path = out_path,
           model_fd = model_fd, model_path = model_path,
           rlog_tmp = rlog_tmp, validation_tmp = validation_tmp\<rparr>)))))))))"

subsection \<open>\<^verbatim>\<open>FM.run\<close>, second half: the process, the results, the clean-up (lines 188 to 258)\<close>

text \<open>The named tuple \<^verbatim>\<open>model\<close> that \<^verbatim>\<open>run\<close> returns.\<close>

record ('f, 'm, 'df) model =
  predictions :: "'f list"
  global_bias :: "'f option"
  weights :: "'f list"
  pairwise_interactions :: 'm
  rlog_df :: "'df option"

text \<open>
  Lines 227 to 234: with \<^verbatim>\<open>self.__rlog\<close>, read the log into a data frame, then close
  and remove the log file; otherwise the log is \<^verbatim>\<open>None\<close>.
\<close>

definition parse_rlog ::
  "('f, 'x, 'y, 'm, 'df) externals \<Rightarrow> 'f fm \<Rightarrow> temps \<Rightarrow> 'df option io" where
  "parse_rlog E self t =
     (if fm_rlog self then
        (case rlog_tmp t of
           None \<Rightarrow> raise UnboundLocalError
         | Some (rlog_fd, rlog_path) \<Rightarrow>
             bind_io (read_file rlog_path) (\<lambda>text.
             bind_io (case read_csv E text of None \<Rightarrow> raise ReadCsvError | Some df \<Rightarrow> ret df) (\<lambda>df.
             bind_io (os_close rlog_fd) (\<lambda>u1.
             bind_io (os_remove rlog_path) (\<lambda>u2.
             ret (Some df))))))
      else ret None)"

text \<open>
  Lines 237 to 239: the condition of line 179 again, then close and remove the
  validation file.
\<close>

definition remove_validation ::
  "'f fm \<Rightarrow> 'x option \<Rightarrow> 'y option \<Rightarrow> temps \<Rightarrow> unit io" where
  "remove_validation self x_validation_set y_validation_set t =
     (if fm_learning_method self = ''sgda'' \<and> x_validation_set \<noteq> None \<and> y_validation_set \<noteq> None then
        (case validation_tmp t of
           None \<Rightarrow> raise UnboundLocalError
         | Some (validation_fd, validation_path) \<Rightarrow>
             bind_io (os_close validation_fd) (\<lambda>u. os_remove validation_path))
      else ret ())"

text \<open>
  Lines 190 to 258. The exit code of \<^verbatim>\<open>call\<close> is bound to \<open>exit_code\<close> and never used,
  as the source discards it. The four unconditional files are closed and removed in the
  order train, test, model, out.
\<close>

definition finish ::
  "('f, 'x, 'y, 'm, 'df) externals \<Rightarrow> 'f fm \<Rightarrow> 'x option \<Rightarrow> 'y option \<Rightarrow> string list \<Rightarrow> temps
     \<Rightarrow> ('f, 'm, 'df) model io" where
  "finish E self x_validation_set y_validation_set args t =
     bind_io (call E (join '' '' args)) (\<lambda>exit_code.
     bind_io (read_file (out_path t)) (\<lambda>out_read.
     bind_io (of_result (read_predictions (py_float E) out_read)) (\<lambda>preds.
     bind_io (read_file (model_path t)) (\<lambda>model_text.
     bind_io (of_result (read_model (py_float E) model_text)) (\<lambda>(gb, ws, rows).
     bind_io (case np_matrix E rows of None \<Rightarrow> raise MatrixError | Some m \<Rightarrow> ret m) (\<lambda>matrix.
     bind_io (parse_rlog E self t) (\<lambda>rlog_frame.
     bind_io (remove_validation self x_validation_set y_validation_set t) (\<lambda>u0.
     bind_io (os_close (train_fd t)) (\<lambda>u1.
     bind_io (os_remove (train_path t)) (\<lambda>u2.
     bind_io (os_close (test_fd t)) (\<lambda>u3.
     bind_io (os_remove (test_path t)) (\<lambda>u4.
     bind_io (os_close (model_fd t)) (\<lambda>u5.
     bind_io (os_remove (model_path t)) (\<lambda>u6.
     bind_io (os_close (out_fd t)) (\<lambda>u7.
     bind_io (os_remove (out_path t)) (\<lambda>u8.
     ret \<lparr>predictions = preds, global_bias = gb, weights = ws,
          pairwise_interactions = matrix, rlog_df = rlog_frame\<rparr>))))))))))))))))"

text \<open>\<^verbatim>\<open>FM.run\<close>: the two halves in sequence.\<close>

definition run ::
  "('f, 'x, 'y, 'm, 'df) externals \<Rightarrow> 'f fm \<Rightarrow> 'x \<Rightarrow> 'y \<Rightarrow> 'x \<Rightarrow> 'y \<Rightarrow> 'x option \<Rightarrow> 'y option
     \<Rightarrow> ('f, 'm, 'df) model io" where
  "run E self x_train y_train x_test y_test x_validation_set y_validation_set =
     bind_io (build_args E self x_train y_train x_test y_test x_validation_set y_validation_set)
       (\<lambda>(args, t). finish E self x_validation_set y_validation_set args t)"

subsection \<open>The flag of an argument\<close>

text \<open>
  Every element that \<^verbatim>\<open>run\<close> puts into \<^verbatim>\<open>args\<close> after the program path is a flag, a
  space and a value. The flag of an element is its text before the first space.
\<close>

definition flag_of :: "string \<Rightarrow> string" where
  "flag_of arg = takeWhile (\<lambda>c. c \<noteq> CHR '' '') arg"

subsection \<open>Concrete instances for closed examples\<close>

text \<open>
  Stand-ins for what the module imports, used only where a closed example needs a value:
  floats are rationals read by \<open>decimal\<close>; the two formats are tables for the values of
  the example; a data set is a list of rendered feature rows and a list of rendered
  targets, written one sample per line and rejected when the lengths differ; a matrix is
  a list of rows of equal length; a data frame is the tab-separated cells of a non-empty
  text.
\<close>

definition ex_fmt_f :: "rat \<Rightarrow> string" where
  "ex_fmt_f r = (if r = 0 then ''0.000000'' else if r = 1 / 10 then ''0.100000'' else ''1.000000'')"

definition ex_fmt_g :: "rat \<Rightarrow> string" where
  "ex_fmt_g r = (if r = 0 then ''0'' else if r = 1 / 10 then ''0.1'' else ''1'')"

definition ex_dump :: "string list \<Rightarrow> string list \<Rightarrow> string option" where
  "ex_dump X y =
     (if length X = length y
      then Some (concat (map (\<lambda>(target, row). target @ '' '' @ row @ [CHR 0x0A]) (zip y X)))
      else None)"

definition ex_matrix :: "rat list list \<Rightarrow> rat list list option" where
  "ex_matrix rows =
     (case rows of
        [] \<Rightarrow> Some []
      | r # rs \<Rightarrow> if list_all (\<lambda>q. length q = length r) rs then Some rows else None)"

definition ex_read_csv :: "string \<Rightarrow> string list list option" where
  "ex_read_csv text =
     (if text = [] then None else Some (map (\<lambda>l. str_split l (CHR 0x09)) (splitlines text)))"

text \<open>
  A process that writes two predictions, a model dump and a log to the third, fourth and
  fifth temporary file of the example world and exits with 0; and one that writes a word
  that is no number where the predictions belong and exits with 1.
\<close>

definition ex_libfm :: "string \<Rightarrow> (string \<rightharpoonup> string) \<Rightarrow> int \<times> (string \<rightharpoonup> string)" where
  "ex_libfm cmd fs =
     (0, fs(''/tmp/c'' \<mapsto> ''1.5\<newline>2.5\<newline>'',
            ''/tmp/d'' \<mapsto> ''#global bias W0\<newline>5.0\<newline>#unary interactions Wj\<newline>1.0\<newline>2.0\<newline>#pairwise interactions Vj,f\<newline>0.1 0.2\<newline>0.3 0.4\<newline>'',
            ''/tmp/e'' \<mapsto> ''rmse\<newline>0.5\<newline>''))"

definition ex_broken_libfm :: "string \<Rightarrow> (string \<rightharpoonup> string) \<Rightarrow> int \<times> (string \<rightharpoonup> string)" where
  "ex_broken_libfm cmd fs = (1, fs(''/tmp/c'' \<mapsto> ''abc''))"

definition ex_externals ::
  "(string \<Rightarrow> (string \<rightharpoonup> string) \<Rightarrow> int \<times> (string \<rightharpoonup> string))
     \<Rightarrow> (rat, string list, string list, rat list list, string list list) externals" where
  "ex_externals process =
     \<lparr>py_float = decimal, fmt_f = ex_fmt_f, fmt_g = ex_fmt_g, dump_svmlight = ex_dump,
      libfm_process = process, np_matrix = ex_matrix, read_csv = ex_read_csv\<rparr>"

text \<open>
  A world with \<^verbatim>\<open>LIBFM_PATH\<close> set, no files, the three standard descriptors open and
  six names on offer; and the same world without the variable.
\<close>

definition ex_world :: world where
  "ex_world =
     \<lparr>environ = [''LIBFM_PATH'' \<mapsto> ''/opt/libfm/bin/''],
      files = Map.empty,
      open_fds = [0, 1, 2],
      tmp_supply = (\<lambda>d. [''/tmp/a'', ''/tmp/b'', ''/tmp/c'', ''/tmp/d'', ''/tmp/e'', ''/tmp/f'']),
      tmp_log = [],
      cmd_log = []\<rparr>"

definition ex_world_no_env :: world where
  "ex_world_no_env = ex_world\<lparr>environ := Map.empty\<rparr>"

text \<open>The default keyword arguments of \<^verbatim>\<open>__init__\<close> (lines 74 to 87), for a given task.\<close>

definition ex_params :: "string \<Rightarrow> rat params" where
  "ex_params t =
     \<lparr>task = t, num_iter = 100, init_stdev = 1 / 10, k0 = True, k1 = True, k2 = 8,
      learning_method = ''mcmc'', learn_rate = 1 / 10,
      r0_regularization = 0, r1_regularization = 0, r2_regularization = 0,
      rlog = True, verbose = False, silent = False, temp_path = None\<rparr>"

text \<open>The object that \<^verbatim>\<open>FM('regression', learning_method=lm)\<close> constructs in the example world.\<close>

definition ex_fm :: "string \<Rightarrow> rat fm" where
  "ex_fm lm =
     \<lparr>fm_task = CHR ''r'', fm_num_iter = 100, fm_init_stdev = 1 / 10, fm_dim = ''1,1,8'',
      fm_learning_method = lm, fm_learn_rate = 1 / 10,
      fm_regularization = ''0.000000,0.000000,0.000000'', fm_rlog = True, fm_verbose = 0,
      fm_silent = False, fm_temp_path = None, fm_libfm_path = ''/opt/libfm/bin/''\<rparr>"

text \<open>
  A call of \<^verbatim>\<open>run\<close> in the example world, on one training and one test sample, for a
  given process, learning method and validation set.
\<close>

definition ex_run ::
  "(string \<Rightarrow> (string \<rightharpoonup> string) \<Rightarrow> int \<times> (string \<rightharpoonup> string)) \<Rightarrow> string
     \<Rightarrow> string list option \<Rightarrow> string list option
     \<Rightarrow> (error + (rat, rat list list, string list list) model) \<times> world" where
  "ex_run process lm xv yv =
     run (ex_externals process) (ex_fm lm) [''1:1''] [''0''] [''1:1''] [''0''] xv yv ex_world"

definition ex_build_args ::
  "string \<Rightarrow> string list option \<Rightarrow> string list option \<Rightarrow> (error + string list \<times> temps) \<times> world" where
  "ex_build_args lm xv yv =
     build_args (ex_externals ex_libfm) (ex_fm lm) [''1:1''] [''0''] [''1:1''] [''0''] xv yv ex_world"

section \<open>Theorems\<close>

subsection \<open>Evaluating the decimal reader\<close>

lemma decimal_examples:
  "decimal ''1.5'' = Some (3 / 2)" "decimal ''2.5'' = Some (5 / 2)"
  "decimal ''5.0'' = Some 5" "decimal ''1.0'' = Some 1" "decimal ''2.0'' = Some 2"
  "decimal ''0.1'' = Some (1 / 10)" "decimal ''0.2'' = Some (1 / 5)"
  "decimal ''0.3'' = Some (3 / 10)" "decimal ''0.4'' = Some (2 / 5)"
  "decimal [] = None" "decimal ''abc'' = None"
  by (simp_all add: decimal_def unsigned_decimal_def digit_of_def)

subsection \<open>Splitting undoes joining\<close>

lemma split_from_no_sep: "sep \<notin> set l \<Longrightarrow> split_from sep acc l = [rev acc @ l]"
  by (induction l arbitrary: acc) auto

lemma split_from_sep:
  "sep \<notin> set l \<Longrightarrow> split_from sep acc (l @ sep # rest) = (rev acc @ l) # split_from sep [] rest"
  by (induction l arbitrary: acc) auto

lemma str_split_join:
  "ls \<noteq> [] \<Longrightarrow> \<forall>l\<in>set ls. sep \<notin> set l \<Longrightarrow> str_split (join [sep] ls) sep = ls"
proof (induction "[sep]" ls rule: join.induct)
  case 1
  then show ?case by simp
next
  case (2 x)
  then show ?case by (simp add: str_split_def split_from_no_sep)
next
  case (3 x y ys)
  then show ?case
    using split_from_sep [of sep x "[]" "join [sep] (y # ys)"] by (simp add: str_split_def)
qed

subsection \<open>Predictions\<close>

lemma float_all_map:
  "\<forall>p\<in>set ps. float p = Some (f p) \<Longrightarrow> float_all float ps = Inr (map f ps)"
  by (induction ps) auto

lemma float_all_rejects:
  "\<exists>p\<in>set ps. float p = None \<Longrightarrow> float_all float ps = Inl ValueError"
proof (induction ps)
  case Nil
  then show ?case by simp
next
  case (Cons q qs)
  show ?case
  proof (cases "float q")
    case None
    then show ?thesis by simp
  next
    case (Some v)
    with Cons.prems have "\<exists>p\<in>set qs. float p = None" by auto
    with Cons.IH Some show ?thesis by simp
  qed
qed

text \<open>
  Claim C4. The predictions are one float per non-empty line of the output file, in file
  order, and empty lines are skipped. When the text of the file is the lines \<open>ls\<close>
  separated by newlines and \<^verbatim>\<open>float\<close> converts every non-empty line \<open>l\<close> to \<open>f l\<close>, the
  predictions are exactly the values \<open>f l\<close> of the non-empty lines among \<open>ls\<close>, one for
  each and in the order of \<open>ls\<close>; the empty lines, wherever they stand, contribute
  nothing. When \<^verbatim>\<open>float\<close> rejects some non-empty line, reading raises \<^verbatim>\<open>ValueError\<close>.
  In particular, for the text \<^verbatim>\<open>"1.5\n2.5\n\n"\<close> the predictions are the floats of
  \<^verbatim>\<open>"1.5"\<close> and \<^verbatim>\<open>"2.5"\<close>, in this order.
\<close>

theorem read_predictions_lines:
  "(ls \<noteq> [] \<and> (\<forall>l\<in>set ls. CHR 0x0A \<notin> set l) \<and>
    (\<forall>l\<in>set ls. l \<noteq> [] \<longrightarrow> float l = Some (f l)) \<longrightarrow>
      read_predictions float (join [CHR 0x0A] ls) = Inr (map f (filter (\<lambda>p. p \<noteq> []) ls))) \<and>
   (ls \<noteq> [] \<and> (\<forall>l\<in>set ls. CHR 0x0A \<notin> set l) \<and>
    (\<exists>l\<in>set ls. l \<noteq> [] \<and> float l = None) \<longrightarrow>
      read_predictions float (join [CHR 0x0A] ls) = Inl ValueError) \<and>
   (float ''1.5'' = Some a \<and> float ''2.5'' = Some b \<longrightarrow>
      read_predictions float ''1.5\<newline>2.5\<newline>\<newline>'' = Inr [a, b])"
proof (intro conjI impI)
  assume h: "ls \<noteq> [] \<and> (\<forall>l\<in>set ls. CHR 0x0A \<notin> set l) \<and>
    (\<forall>l\<in>set ls. l \<noteq> [] \<longrightarrow> float l = Some (f l))"
  then have "str_split (join [CHR 0x0A] ls) (CHR 0x0A) = ls"
    by (simp add: str_split_join)
  moreover from h have "\<forall>p\<in>set (filter (\<lambda>p. p \<noteq> []) ls). float p = Some (f p)"
    by simp
  ultimately show "read_predictions float (join [CHR 0x0A] ls) =
      Inr (map f (filter (\<lambda>p. p \<noteq> []) ls))"
    by (simp only: read_predictions_def float_all_map)
next
  assume h: "ls \<noteq> [] \<and> (\<forall>l\<in>set ls. CHR 0x0A \<notin> set l) \<and>
    (\<exists>l\<in>set ls. l \<noteq> [] \<and> float l = None)"
  then have "str_split (join [CHR 0x0A] ls) (CHR 0x0A) = ls"
    by (simp add: str_split_join)
  moreover from h have "\<exists>p\<in>set (filter (\<lambda>p. p \<noteq> []) ls). float p = None"
    by auto
  ultimately show "read_predictions float (join [CHR 0x0A] ls) = Inl ValueError"
    by (simp only: read_predictions_def float_all_rejects)
next
  assume "float ''1.5'' = Some a \<and> float ''2.5'' = Some b"
  then show "read_predictions float ''1.5\<newline>2.5\<newline>\<newline>'' = Inr [a, b]"
    by (simp add: read_predictions_def str_split_def)
qed

theorem read_predictions_lines_witness:
  "decimal ''1.5'' = Some (3 / 2) \<and> decimal ''2.5'' = Some (5 / 2) \<and>
   decimal ''7.0'' = Some 7 \<and> decimal ''abc'' = None \<and>
   join [CHR 0x0A] [''1.5'', ''2.5'', [], []] = ''1.5\<newline>2.5\<newline>\<newline>'' \<and>
   read_predictions decimal ''1.5\<newline>2.5\<newline>\<newline>'' = Inr [3 / 2, 5 / 2] \<and>
   join [CHR 0x0A] [''1.5'', [], ''2.5'', ''7.0'', []] = ''1.5\<newline>\<newline>2.5\<newline>7.0\<newline>'' \<and>
   read_predictions decimal ''1.5\<newline>\<newline>2.5\<newline>7.0\<newline>'' = Inr [3 / 2, 5 / 2, 7] \<and>
   join [CHR 0x0A] [''1.5'', ''abc'', []] = ''1.5\<newline>abc\<newline>'' \<and>
   read_predictions decimal ''1.5\<newline>abc\<newline>'' = Inl ValueError"
proof -
  let ?f = "\<lambda>l. if l = ''1.5'' then 3 / 2 else if l = ''2.5'' then 5 / 2 else (7 :: rat)"
  have d7: "decimal ''7.0'' = Some 7"
    by (simp add: decimal_def unsigned_decimal_def digit_of_def)
  have 1: "read_predictions decimal ''1.5\<newline>2.5\<newline>\<newline>'' = Inr [3 / 2, 5 / 2]"
    using read_predictions_lines [of "[''1.5'', ''2.5'', [], []]" decimal ?f "3 / 2" "5 / 2",
        THEN conjunct1]
    by (simp add: decimal_examples)
  have 2: "read_predictions decimal ''1.5\<newline>\<newline>2.5\<newline>7.0\<newline>'' = Inr [3 / 2, 5 / 2, 7]"
    using read_predictions_lines [of "[''1.5'', [], ''2.5'', ''7.0'', []]" decimal ?f "3 / 2" "5 / 2",
        THEN conjunct1]
    by (simp add: decimal_examples d7)
  have 3: "read_predictions decimal ''1.5\<newline>abc\<newline>'' = Inl ValueError"
    using read_predictions_lines [of "[''1.5'', ''abc'', []]" decimal ?f "3 / 2" "5 / 2",
        THEN conjunct2, THEN conjunct1]
    by (simp add: decimal_examples)
  show ?thesis
    using 1 2 3 by (simp add: decimal_examples d7)
qed

subsection \<open>The model dump\<close>

lemma model_lines_append:
  "model_lines float st (xs @ ys) =
     (case model_lines float st xs of Inl e \<Rightarrow> Inl e | Inr st' \<Rightarrow> model_lines float st' ys)"
  by (induction xs arbitrary: st) (auto split: sum.splits)

text \<open>
  A run of lines that do not start with \<^verbatim>\<open>#\<close> goes to the field that \<open>out_iter\<close>
  names: each line overwrites the global bias, or is appended to the weights, or is
  appended as a row.
\<close>

lemma bias_block:
  "\<forall>(l, v)\<in>set ds. \<not> startswith l ''#'' \<and> float l = Some v \<Longrightarrow>
   model_lines float (0, g, ws, ps) (map fst ds) =
     Inr (0, (if ds = [] then g else Some (snd (last ds))), ws, ps)"
  by (induction ds arbitrary: g) (auto split: sum.splits)

lemma unary_block:
  "\<forall>(l, v)\<in>set ds. \<not> startswith l ''#'' \<and> float l = Some v \<Longrightarrow>
   model_lines float (Suc 0, g, ws, ps) (map fst ds) = Inr (Suc 0, g, ws @ map snd ds, ps)"
  by (induction ds arbitrary: ws) (auto split: sum.splits)

lemma pairwise_block:
  "\<forall>(l, row)\<in>set rs. \<not> startswith l ''#'' \<and> float_all float (str_split l (CHR '' '')) = Inr row \<Longrightarrow>
   model_lines float (2, g, ws, ps) (map fst rs) = Inr (2, g, ws, ps @ map snd rs)"
  by (induction rs arbitrary: ps) (auto split: sum.splits)

lemma marker_line:
  "startswith m ''#'' \<Longrightarrow>
   model_line float (i, g, ws, ps) m =
     Inr (if str_in ''#global bias W0'' m then 0
          else if str_in ''#unary interactions Wj'' m then 1
          else if str_in ''#pairwise interactions Vj,f'' m then 2 else i, g, ws, ps)"
  by simp

text \<open>
  Claim C2. The dump with the marker \<^verbatim>\<open>#global bias W0\<close> and the line \<^verbatim>\<open>5.0\<close>, the
  marker \<^verbatim>\<open>#unary interactions Wj\<close> and the lines \<^verbatim>\<open>1.0\<close> and \<^verbatim>\<open>2.0\<close>, the marker
  \<^verbatim>\<open>#pairwise interactions Vj,f\<close> and the lines \<^verbatim>\<open>0.1 0.2\<close> and \<^verbatim>\<open>0.3 0.4\<close> parses
  to the global bias 5.0, the weights 1.0, 2.0 and the rows (0.1, 0.2), (0.3, 0.4): every
  value is in the field of its own section, in file order.
\<close>

theorem read_model_example:
  assumes "float ''5.0'' = Some w0"
      and "float ''1.0'' = Some w1" and "float ''2.0'' = Some w2"
      and "float ''0.1'' = Some v11" and "float ''0.2'' = Some v12"
      and "float ''0.3'' = Some v21" and "float ''0.4'' = Some v22"
  shows "splitlines ''#global bias W0\<newline>5.0\<newline>#unary interactions Wj\<newline>1.0\<newline>2.0\<newline>#pairwise interactions Vj,f\<newline>0.1 0.2\<newline>0.3 0.4\<newline>''
       = [''#global bias W0'', ''5.0'', ''#unary interactions Wj'', ''1.0'', ''2.0'',
          ''#pairwise interactions Vj,f'', ''0.1 0.2'', ''0.3 0.4''] \<and>
     read_model float ''#global bias W0\<newline>5.0\<newline>#unary interactions Wj\<newline>1.0\<newline>2.0\<newline>#pairwise interactions Vj,f\<newline>0.1 0.2\<newline>0.3 0.4\<newline>''
       = Inr (Some w0, [w1, w2], [[v11, v12], [v21, v22]])"
  using assms by (simp add: read_model_def splitlines_def line_boundary_def str_split_def)

theorem read_model_example_witness:
  "decimal ''5.0'' = Some 5 \<and> decimal ''1.0'' = Some 1 \<and> decimal ''2.0'' = Some 2 \<and>
   decimal ''0.1'' = Some (1 / 10) \<and> decimal ''0.2'' = Some (1 / 5) \<and>
   decimal ''0.3'' = Some (3 / 10) \<and> decimal ''0.4'' = Some (2 / 5) \<and>
   read_model decimal ''#global bias W0\<newline>5.0\<newline>#unary interactions Wj\<newline>1.0\<newline>2.0\<newline>#pairwise interactions Vj,f\<newline>0.1 0.2\<newline>0.3 0.4\<newline>''
     = Inr (Some 5, [1, 2], [[1 / 10, 1 / 5], [3 / 10, 2 / 5]])"
  using read_model_example [of decimal 5 1 2 "1 / 10" "1 / 5" "3 / 10" "2 / 5"]
  by (simp add: decimal_examples)

text \<open>
  Claim C7, as the code has it. A line starting with \<^verbatim>\<open>#\<close> is never data. It selects
  a section by containing one of the three complete marker texts, tested in this order:
  \<^verbatim>\<open>#global bias W0\<close>, then \<^verbatim>\<open>#unary interactions Wj\<close>, then
  \<^verbatim>\<open>#pairwise interactions Vj,f\<close>; a \<^verbatim>\<open>#\<close> line containing none of them leaves the
  current section as it is. The lines after it that do not start with \<^verbatim>\<open>#\<close> go to the
  selected field (each overwrites the global bias, or is appended to the weights, or is
  appended as a row of floats), and the lines after them, \<open>rest\<close>, are read from the state
  so reached: the section lasts until the next line that selects one, or the end of the
  file.
\<close>

theorem marker_routing:
  assumes m: "startswith m ''#''"
      and ds: "\<forall>(l, v)\<in>set ds. \<not> startswith l ''#'' \<and> float l = Some v"
      and rs: "\<forall>(l, row)\<in>set rs. \<not> startswith l ''#'' \<and> float_all float (str_split l (CHR '' '')) = Inr row"
  shows
   "(str_in ''#global bias W0'' m \<longrightarrow>
       model_lines float (i, g, ws, ps) (m # map fst ds @ rest) =
       model_lines float (0, (if ds = [] then g else Some (snd (last ds))), ws, ps) rest) \<and>
    (\<not> str_in ''#global bias W0'' m \<and> str_in ''#unary interactions Wj'' m \<longrightarrow>
       model_lines float (i, g, ws, ps) (m # map fst ds @ rest) =
       model_lines float (1, g, ws @ map snd ds, ps) rest) \<and>
    (\<not> str_in ''#global bias W0'' m \<and> \<not> str_in ''#unary interactions Wj'' m \<and>
     str_in ''#pairwise interactions Vj,f'' m \<longrightarrow>
       model_lines float (i, g, ws, ps) (m # map fst rs @ rest) =
       model_lines float (2, g, ws, ps @ map snd rs) rest) \<and>
    (\<not> str_in ''#global bias W0'' m \<and> \<not> str_in ''#unary interactions Wj'' m \<and>
     \<not> str_in ''#pairwise interactions Vj,f'' m \<longrightarrow>
       model_lines float (i, g, ws, ps) (m # rest) = model_lines float (i, g, ws, ps) rest)"
proof -
  have step: "model_lines float (i, g, ws, ps) (m # xs) =
      model_lines float (if str_in ''#global bias W0'' m then 0
          else if str_in ''#unary interactions Wj'' m then 1
          else if str_in ''#pairwise interactions Vj,f'' m then 2 else i, g, ws, ps) xs" for xs
    using marker_line [OF m, of float i g ws ps] by simp
  show ?thesis
    using bias_block [OF ds, of g ws ps] unary_block [OF ds, of g ws ps]
      pairwise_block [OF rs, of g ws ps]
    by (simp add: step model_lines_append del: model_line.simps model_lines.simps)
qed

theorem marker_routing_witness:
  "startswith ''#global bias W0'' ''#'' \<and> str_in ''#global bias W0'' ''#global bias W0'' \<and>
   decimal ''5.0'' = Some 5 \<and>
   model_lines decimal (2, None, [], []) [''#global bias W0'', ''5.0''] =
   model_lines decimal (0, Some 5, [], []) [] \<and>
   startswith ''#unary interactions Wj'' ''#'' \<and>
   \<not> str_in ''#global bias W0'' ''#unary interactions Wj'' \<and>
   str_in ''#unary interactions Wj'' ''#unary interactions Wj'' \<and>
   decimal ''1.0'' = Some 1 \<and> decimal ''2.0'' = Some 2 \<and>
   model_lines decimal (0, None, [], [])
     [''#unary interactions Wj'', ''1.0'', ''2.0'', ''#pairwise interactions Vj,f''] =
   model_lines decimal (1, None, [1, 2], []) [''#pairwise interactions Vj,f''] \<and>
   startswith ''#pairwise interactions Vj,f'' ''#'' \<and>
   \<not> str_in ''#global bias W0'' ''#pairwise interactions Vj,f'' \<and>
   \<not> str_in ''#unary interactions Wj'' ''#pairwise interactions Vj,f'' \<and>
   str_in ''#pairwise interactions Vj,f'' ''#pairwise interactions Vj,f'' \<and>
   float_all decimal (str_split ''0.1 0.2'' (CHR '' '')) = Inr [1 / 10, 1 / 5] \<and>
   model_lines decimal (1, None, [1, 2], []) [''#pairwise interactions Vj,f'', ''0.1 0.2''] =
   model_lines decimal (2, None, [1, 2], [[1 / 10, 1 / 5]]) [] \<and>
   startswith ''#comment'' ''#'' \<and>
   \<not> str_in ''#global bias W0'' ''#comment'' \<and> \<not> str_in ''#unary interactions Wj'' ''#comment'' \<and>
   \<not> str_in ''#pairwise interactions Vj,f'' ''#comment'' \<and>
   model_lines decimal (1, None, [1], []) [''#comment'', ''2.0''] =
   model_lines decimal (1, None, [1], []) [''2.0'']"
  using marker_routing [of "''#global bias W0''" "[(''5.0'', 5)]" decimal "[]"
      2 None "[]" "[]" "[]"]
    marker_routing [of "''#unary interactions Wj''" "[(''1.0'', 1), (''2.0'', 2)]" decimal "[]"
      0 None "[]" "[]" "[''#pairwise interactions Vj,f'']"]
    marker_routing [of "''#pairwise interactions Vj,f''" "[]" decimal
      "[(''0.1 0.2'', [1 / 10, 1 / 5])]" 1 None "[1, 2]" "[]" "[]"]
    marker_routing [of "''#comment''" "[]" decimal "[]" 1 None "[1]" "[]" "[''2.0'']"]
  by (simp add: decimal_examples str_split_def)

text \<open>
  Claim C7 as the specification words it fails: the line \<^verbatim>\<open>#global bias\<close> starts with
  \<^verbatim>\<open>#\<close> and contains \<^verbatim>\<open>global bias\<close>, yet the line \<^verbatim>\<open>5.0\<close> after it is appended to
  the weights of the section before, and the global bias stays \<^verbatim>\<open>None\<close>.
\<close>

theorem marker_containment_counterexample:
  "startswith ''#global bias'' ''#'' \<and> str_in ''global bias'' ''#global bias'' \<and>
   read_model decimal ''#unary interactions Wj\<newline>1.0\<newline>#global bias\<newline>5.0\<newline>'' =
     Inr (None, [1, 5], []) \<and>
   read_model decimal ''#unary interactions Wj\<newline>1.0\<newline>#global bias\<newline>5.0\<newline>'' \<noteq>
     Inr (Some 5, [1], [])"
  by (simp add: read_model_def splitlines_def line_boundary_def decimal_examples)

text \<open>
  Claim C8. A dump holds, in this order, an optional global-bias section (marker and one
  line), an optional unary section (marker and weight lines) and an optional pairwise
  section (marker and row lines); \<open>b\<close>, \<open>u\<close> and \<open>p\<close> are \<open>None\<close> for a section that is
  not in the file. When the data lines of the sections that are there convert, reading
  the dump raises nothing, and a section that is not there leaves its field as
  initialised: the global bias \<^verbatim>\<open>None\<close>, the weights empty, the rows empty.
\<close>

theorem absent_sections:
  assumes b: "\<forall>(l, v)\<in>set_option b. \<not> startswith l ''#'' \<and> float l = Some v"
      and u: "\<forall>ds\<in>set_option u. \<forall>(l, v)\<in>set ds. \<not> startswith l ''#'' \<and> float l = Some v"
      and p: "\<forall>rs\<in>set_option p. \<forall>(l, row)\<in>set rs.
                \<not> startswith l ''#'' \<and> float_all float (str_split l (CHR '' '')) = Inr row"
      and shape: "splitlines text =
         (case b of None \<Rightarrow> [] | Some (l, v) \<Rightarrow> [''#global bias W0'', l]) @
         (case u of None \<Rightarrow> [] | Some ds \<Rightarrow> ''#unary interactions Wj'' # map fst ds) @
         (case p of None \<Rightarrow> [] | Some rs \<Rightarrow> ''#pairwise interactions Vj,f'' # map fst rs)"
  shows "read_model float text =
         Inr (case b of None \<Rightarrow> None | Some (l, v) \<Rightarrow> Some v,
              case u of None \<Rightarrow> [] | Some ds \<Rightarrow> map snd ds,
              case p of None \<Rightarrow> [] | Some rs \<Rightarrow> map snd rs)"
proof -
  have B: "model_lines float (0, None, [], [])
             (case b of None \<Rightarrow> [] | Some (l, v) \<Rightarrow> [''#global bias W0'', l]) =
           Inr (0, (case b of None \<Rightarrow> None | Some (l, v) \<Rightarrow> Some v), [], [])"
    using b by (cases b) auto
  have U: "model_lines float (0, g, [], [])
             (case u of None \<Rightarrow> [] | Some ds \<Rightarrow> ''#unary interactions Wj'' # map fst ds) =
           Inr ((case u of None \<Rightarrow> 0 | Some ds \<Rightarrow> 1), g,
                (case u of None \<Rightarrow> [] | Some ds \<Rightarrow> map snd ds), [])" for g
  proof (cases u)
    case None
    then show ?thesis by simp
  next
    case (Some ds)
    with u have "\<forall>(l, v)\<in>set ds. \<not> startswith l ''#'' \<and> float l = Some v" by simp
    from unary_block [OF this, of g "[]" "[]"] Some show ?thesis by simp
  qed
  have P: "model_lines float (i, g, ws, [])
             (case p of None \<Rightarrow> [] | Some rs \<Rightarrow> ''#pairwise interactions Vj,f'' # map fst rs) =
           Inr ((case p of None \<Rightarrow> i | Some rs \<Rightarrow> 2), g, ws,
                (case p of None \<Rightarrow> [] | Some rs \<Rightarrow> map snd rs))" for i g ws
  proof (cases p)
    case None
    then show ?thesis by simp
  next
    case (Some rs)
    with p have "\<forall>(l, row)\<in>set rs. \<not> startswith l ''#'' \<and>
        float_all float (str_split l (CHR '' '')) = Inr row" by simp
    from pairwise_block [OF this, of g ws "[]"] Some show ?thesis by simp
  qed
  show ?thesis
    unfolding read_model_def shape
    by (simp only: model_lines_append B U P sum.case prod.case)
qed

theorem absent_sections_witness:
  "splitlines ''#pairwise interactions Vj,f\<newline>0.1 0.2\<newline>0.3 0.4\<newline>'' =
     [''#pairwise interactions Vj,f'', ''0.1 0.2'', ''0.3 0.4''] \<and>
   float_all decimal (str_split ''0.1 0.2'' (CHR '' '')) = Inr [1 / 10, 1 / 5] \<and>
   float_all decimal (str_split ''0.3 0.4'' (CHR '' '')) = Inr [3 / 10, 2 / 5] \<and>
   read_model decimal ''#pairwise interactions Vj,f\<newline>0.1 0.2\<newline>0.3 0.4\<newline>'' =
     Inr (None, [], [[1 / 10, 1 / 5], [3 / 10, 2 / 5]]) \<and>
   read_model decimal [] = Inr (None, [], [])"
  using absent_sections [of None decimal None
      "Some [(''0.1 0.2'', [1 / 10, 1 / 5]), (''0.3 0.4'', [3 / 10, 2 / 5])]"
      "''#pairwise interactions Vj,f\<newline>0.1 0.2\<newline>0.3 0.4\<newline>''"]
    absent_sections [of None decimal None None "[]"]
  by (simp add: splitlines_def line_boundary_def str_split_def decimal_examples)

subsection \<open>The constructor\<close>

lemma ex_params_task: "(ex_params t)\<lparr>task := t'\<rparr> = ex_params t'"
  by (simp add: ex_params_def)

lemma ex_world_environ:
  "environ ex_world ''LIBFM_PATH'' = Some ''/opt/libfm/bin/''"
  "environ ex_world_no_env ''LIBFM_PATH'' = None"
  by (simp_all add: ex_world_def ex_world_no_env_def)

text \<open>The example object is the one the constructor builds from the default arguments.\<close>

lemma ex_fm_constructed:
  "FM_init (ex_externals p) ((ex_params ''regression'')\<lparr>learning_method := lm\<rparr>) ex_world =
     (Inr (ex_fm lm), ex_world)"
  by (simp add: FM_init_def ex_externals_def ex_params_def ex_world_def ex_fm_def fmt_d_def
      int_of_bool_def ex_fmt_f_def)

lemma bind_io_Inl: "m w = (Inl e, w') \<Longrightarrow> bind_io m f w = (Inl e, w')"
  by (simp add: bind_io_def)

text \<open>
  Claim C10. With an empty task the constructor raises \<^verbatim>\<open>IndexError\<close>, whatever the
  environment holds, so before the environment is looked at. With a non-empty task and
  \<^verbatim>\<open>LIBFM_PATH\<close> set it returns an object whose task is the first character, and the
  result does not depend on the characters after the first: a string that shares its
  first letter with a valid task is accepted like that task.
\<close>

theorem task_first_letter:
  "FM_init E (kw\<lparr>task := []\<rparr>) w = (Inl IndexError, w) \<and>
   (environ w ''LIBFM_PATH'' \<noteq> None \<longrightarrow>
      (\<exists>self. FM_init E (kw\<lparr>task := c # cs\<rparr>) w = (Inr self, w) \<and> fm_task self = c)) \<and>
   FM_init E (kw\<lparr>task := c # cs\<rparr>) w = FM_init E (kw\<lparr>task := c # cs'\<rparr>) w"
  by (auto simp: FM_init_def split: option.splits)

theorem task_first_letter_witness:
  "environ ex_world_no_env ''LIBFM_PATH'' = None \<and>
   FM_init (ex_externals ex_libfm) (ex_params []) ex_world_no_env = (Inl IndexError, ex_world_no_env) \<and>
   environ ex_world ''LIBFM_PATH'' \<noteq> None \<and>
   (\<exists>self. FM_init (ex_externals ex_libfm) (ex_params ''rubbish'') ex_world = (Inr self, ex_world) \<and>
      fm_task self = CHR ''r'') \<and>
   FM_init (ex_externals ex_libfm) (ex_params ''rubbish'') ex_world =
   FM_init (ex_externals ex_libfm) (ex_params ''regression'') ex_world"
proof -
  note a = task_first_letter [of "ex_externals ex_libfm" "ex_params []" ex_world_no_env
      "CHR ''r''" "''ubbish''" "''egression''"]
  note b = task_first_letter [of "ex_externals ex_libfm" "ex_params []" ex_world
      "CHR ''r''" "''ubbish''" "''egression''"]
  have 1: "FM_init (ex_externals ex_libfm) (ex_params []) ex_world_no_env =
      (Inl IndexError, ex_world_no_env)"
    using a [THEN conjunct1] by (simp add: ex_params_task)
  have 2: "\<exists>self. FM_init (ex_externals ex_libfm) (ex_params ''rubbish'') ex_world =
      (Inr self, ex_world) \<and> fm_task self = CHR ''r''"
    using b [THEN conjunct2, THEN conjunct1] by (simp add: ex_params_task ex_world_environ)
  have 3: "FM_init (ex_externals ex_libfm) (ex_params ''rubbish'') ex_world =
      FM_init (ex_externals ex_libfm) (ex_params ''regression'') ex_world"
    using b [THEN conjunct2, THEN conjunct2] by (simp add: ex_params_task)
  show ?thesis
    by (intro conjI 1 2 3) (simp_all add: ex_world_environ)
qed

text \<open>
  Claim C5, as the code has it. When \<^verbatim>\<open>LIBFM_PATH\<close> is not set and the task is not
  empty, the constructor raises the error of line 105 and leaves the world as it was.
  No object exists then, so a \<^verbatim>\<open>run\<close> that would follow the construction never
  starts: the construction followed by \<^verbatim>\<open>run\<close> ends with the same error in the same
  world, with no temporary file created and no command run.
\<close>

theorem missing_libfm_path:
  assumes "environ w ''LIBFM_PATH'' = None" and "task kw \<noteq> []"
  shows "FM_init E kw w = (Inl LibfmPathNotSet, w) \<and>
         bind_io (FM_init E kw) (\<lambda>self. run E self x_train y_train x_test y_test xv yv) w =
           (Inl LibfmPathNotSet, w)"
proof -
  from assms have "FM_init E kw w = (Inl LibfmPathNotSet, w)"
    by (cases "task kw") (simp_all add: FM_init_def)
  then show ?thesis by (simp add: bind_io_Inl)
qed

theorem missing_libfm_path_witness:
  "environ ex_world_no_env ''LIBFM_PATH'' = None \<and> task (ex_params ''regression'') \<noteq> [] \<and>
   FM_init (ex_externals ex_libfm) (ex_params ''regression'') ex_world_no_env =
     (Inl LibfmPathNotSet, ex_world_no_env) \<and>
   bind_io (FM_init (ex_externals ex_libfm) (ex_params ''regression''))
     (\<lambda>self. run (ex_externals ex_libfm) self [''1:1''] [''0''] [''1:1''] [''0''] None None)
     ex_world_no_env = (Inl LibfmPathNotSet, ex_world_no_env) \<and>
   files ex_world_no_env = Map.empty \<and> tmp_log ex_world_no_env = [] \<and> cmd_log ex_world_no_env = []"
  using missing_libfm_path [of ex_world_no_env "ex_params ''regression''" "ex_externals ex_libfm"
      "[''1:1'']" "[''0'']" "[''1:1'']" "[''0'']" None None]
  by (simp add: ex_params_def ex_world_environ) (simp add: ex_world_def ex_world_no_env_def)

text \<open>
  Claim C5 as the specification words it fails for the empty task: \<^verbatim>\<open>LIBFM_PATH\<close> is
  not set, and the constructor raises \<^verbatim>\<open>IndexError\<close> from line 90, not the error of
  line 105.
\<close>

theorem empty_task_counterexample:
  "environ ex_world_no_env ''LIBFM_PATH'' = None \<and>
   FM_init (ex_externals ex_libfm) (ex_params []) ex_world_no_env = (Inl IndexError, ex_world_no_env) \<and>
   IndexError \<noteq> LibfmPathNotSet"
  by (simp add: FM_init_def ex_params_def ex_world_def ex_world_no_env_def)

subsection \<open>What an action that returned has done\<close>

lemma bind_io_eq_Inr:
  "bind_io m f w = (Inr y, w') \<longleftrightarrow> (\<exists>x w1. m w = (Inr x, w1) \<and> f x w1 = (Inr y, w'))"
  by (auto simp: bind_io_def split: prod.splits sum.splits)

lemma ret_eq: "ret x w = (Inr y, w') \<longleftrightarrow> y = x \<and> w' = w"
  by (auto simp: ret_def)

lemma raise_eq: "raise e w = (Inr y, w') \<longleftrightarrow> False"
  by (simp add: raise_def)

lemma dropWhile_head: "dropWhile P xs = p # rest \<Longrightarrow> \<not> P p"
  by (metis hd_dropWhile list.discI list.sel(1))

lemma mkstemp_Inr:
  "mkstemp d w = (Inr (fd, p), w') \<Longrightarrow>
     files w p = None \<and> files w' = (files w)(p \<mapsto> []) \<and> open_fds w' = fd # open_fds w \<and>
     tmp_log w' = tmp_log w @ [(fd, p)] \<and> cmd_log w' = cmd_log w \<and> environ w' = environ w"
  by (auto simp: mkstemp_def Let_def split: list.splits dest: dropWhile_head)

text \<open>
  The descriptor and the path that \<^verbatim>\<open>mkstemp\<close> returns were not in use before.
\<close>

lemma first_free_cases:
  "first_free k n fds \<notin> set fds \<or> (\<forall>i. n \<le> i \<and> i \<le> n + k \<longrightarrow> i \<in> set fds)"
proof (induction k arbitrary: n)
  case 0
  then show ?case by auto
next
  case (Suc k)
  show ?case
  proof (cases "n \<in> set fds")
    case True
    from Suc [of "Suc n"] show ?thesis
    proof
      assume "first_free k (Suc n) fds \<notin> set fds"
      with True show ?thesis by simp
    next
      assume a: "\<forall>i. Suc n \<le> i \<and> i \<le> Suc n + k \<longrightarrow> i \<in> set fds"
      have "i \<in> set fds" if "n \<le> i \<and> i \<le> n + Suc k" for i
        using that a True by (cases "i = n") auto
      then show ?thesis by blast
    qed
  next
    case False
    then show ?thesis by simp
  qed
qed

lemma lowest_free_fresh: "lowest_free fds \<notin> set fds"
proof (rule ccontr)
  assume "\<not> lowest_free fds \<notin> set fds"
  with first_free_cases [of "length fds" 0 fds]
  have "\<forall>i. i \<le> length fds \<longrightarrow> i \<in> set fds" by (simp add: lowest_free_def)
  then have "{0..length fds} \<subseteq> set fds" by auto
  then have "card {0..length fds} \<le> card (set fds)" by (intro card_mono) auto
  moreover have "card (set fds) \<le> length fds" by (rule card_length)
  ultimately show False by simp
qed

lemma mkstemp_fresh:
  "mkstemp d w = (Inr (fd, p), w') \<Longrightarrow> fd \<notin> set (open_fds w) \<and> files w p = None"
  by (auto simp: mkstemp_def Let_def lowest_free_fresh split: list.splits dest: dropWhile_head)

lemma dump_svmlight_file_Inr:
  "dump_svmlight_file E X y path w = (Inr u, w') \<Longrightarrow>
     files w' = (files w)(path := dump_svmlight E X y) \<and> dump_svmlight E X y \<noteq> None \<and>
     open_fds w' = open_fds w \<and> tmp_log w' = tmp_log w \<and> cmd_log w' = cmd_log w \<and> environ w' = environ w"
  by (auto simp: dump_svmlight_file_def split: option.splits)

lemma append_rlog_Inr:
  assumes "append_rlog self args w = (Inr (h, args'), w')"
  shows "(h \<noteq> None \<longleftrightarrow> fm_rlog self) \<and>
     args' = args @ (case h of None \<Rightarrow> [] | Some (fd, p) \<Rightarrow> [''-rlog '' @ p]) \<and>
     tmp_log w' = tmp_log w @ (case h of None \<Rightarrow> [] | Some x \<Rightarrow> [x]) \<and>
     cmd_log w' = cmd_log w \<and>
     (\<forall>p. files w' p = None \<longrightarrow> files w p = None)"
  using assms
  by (auto simp: append_rlog_def bind_io_eq_Inr ret_eq split: if_splits dest!: mkstemp_Inr)

lemma append_validation_Inr:
  assumes "append_validation E self xv yv args w = (Inr (h, args'), w')"
  shows "(h \<noteq> None \<longleftrightarrow> fm_learning_method self = ''sgda'' \<and> xv \<noteq> None \<and> yv \<noteq> None) \<and>
     args' = args @ (case h of None \<Rightarrow> [] | Some (fd, p) \<Rightarrow> [''-validation '' @ p]) \<and>
     tmp_log w' = tmp_log w @ (case h of None \<Rightarrow> [] | Some x \<Rightarrow> [x]) \<and>
     cmd_log w' = cmd_log w \<and>
     (\<forall>p. files w' p = None \<longrightarrow> files w p = None) \<and>
     (\<forall>fd p x y. h = Some (fd, p) \<and> xv = Some x \<and> yv = Some y \<longrightarrow>
         files w p = None \<and> files w' p = dump_svmlight E x y \<and> dump_svmlight E x y \<noteq> None)"
  using assms
  by (auto simp: append_validation_def bind_io_eq_Inr ret_eq
      split: if_splits option.splits dest!: mkstemp_Inr dump_svmlight_file_Inr)

lemma os_close_Inr:
  "os_close fd w = (Inr u, w') \<Longrightarrow>
     open_fds w' = removeAll fd (open_fds w) \<and> files w' = files w \<and>
     tmp_log w' = tmp_log w \<and> cmd_log w' = cmd_log w"
  by (auto simp: os_close_def split: if_splits)

lemma os_remove_Inr:
  "os_remove p w = (Inr u, w') \<Longrightarrow>
     files w' = (files w)(p := None) \<and> open_fds w' = open_fds w \<and>
     tmp_log w' = tmp_log w \<and> cmd_log w' = cmd_log w"
  by (auto simp: os_remove_def split: if_splits)

lemma read_file_Inr: "read_file p w = (Inr x, w') \<Longrightarrow> w' = w"
  by (auto simp: read_file_def split: option.splits)

lemma of_result_Inr: "of_result r w = (Inr x, w') \<Longrightarrow> w' = w"
  by (simp add: of_result_def)

lemma call_Inr:
  "call E args w = (Inr c, w') \<Longrightarrow>
     open_fds w' = open_fds w \<and> tmp_log w' = tmp_log w \<and> cmd_log w' = cmd_log w @ [args]"
  by (auto simp: call_def)

lemma matrix_Inr:
  "(case np_matrix E rows of None \<Rightarrow> raise MatrixError | Some m \<Rightarrow> ret m) w = (Inr x, w') \<Longrightarrow> w' = w"
  by (auto simp: raise_def ret_def split: option.splits)

lemma parse_rlog_Inr:
  assumes "parse_rlog E self t w = (Inr x, w')"
  shows "tmp_log w' = tmp_log w \<and> cmd_log w' = cmd_log w \<and>
     set (open_fds w') \<subseteq> set (open_fds w) \<and> (\<forall>q. files w q = None \<longrightarrow> files w' q = None) \<and>
     (fm_rlog self \<longrightarrow> (\<exists>fd p. rlog_tmp t = Some (fd, p) \<and> files w' p = None \<and> fd \<notin> set (open_fds w')))"
  using assms
  by (auto simp: parse_rlog_def bind_io_eq_Inr ret_eq raise_eq
      split: if_splits option.splits dest!: os_close_Inr os_remove_Inr read_file_Inr)

lemma remove_validation_Inr:
  assumes "remove_validation self xv yv t w = (Inr x, w')"
  shows "tmp_log w' = tmp_log w \<and> cmd_log w' = cmd_log w \<and>
     set (open_fds w') \<subseteq> set (open_fds w) \<and> (\<forall>q. files w q = None \<longrightarrow> files w' q = None) \<and>
     (fm_learning_method self = ''sgda'' \<and> xv \<noteq> None \<and> yv \<noteq> None \<longrightarrow>
        (\<exists>fd p. validation_tmp t = Some (fd, p) \<and> files w' p = None \<and> fd \<notin> set (open_fds w')))"
  using assms
  by (auto simp: remove_validation_def bind_io_eq_Inr ret_eq raise_eq
      split: if_splits option.splits dest!: os_close_Inr os_remove_Inr)

subsection \<open>Running the examples\<close>

lemmas io_defs = bind_io_def ret_def raise_def of_result_def mkstemp_def os_close_def os_remove_def
  read_file_def dump_svmlight_file_def call_def lowest_free_def Let_def

lemmas ex_defs = ex_externals_def ex_world_def ex_fm_def ex_dump_def ex_fmt_f_def ex_fmt_g_def
  ex_matrix_def ex_read_csv_def

lemmas run_defs = run_def build_args_def append_rlog_def append_validation_def finish_def
  parse_rlog_def remove_validation_def read_predictions_def read_model_def splitlines_def
  line_boundary_def str_split_def fmt_d_def

lemma ex_fm_fields:
  "fm_learning_method (ex_fm lm) = lm" "fm_rlog (ex_fm lm)"
  by (simp_all add: ex_fm_def)

lemma ex_externals_process:
  "(ex_externals p)\<lparr>libfm_process := q\<rparr> = ex_externals q" "libfm_process (ex_externals p) = p"
  by (simp_all add: ex_externals_def)

text \<open>
  \<^verbatim>\<open>sgda\<close> with a validation set: fifteen elements, the last one \<^verbatim>\<open>-validation\<close> with
  the sixth temporary file, which holds the validation sample.
\<close>

lemma ex_build_args_validation:
  "fst (ex_build_args ''sgda'' (Some [''1:1'']) (Some [''1''])) =
   Inr ([''/opt/libfm/bin/libFM'', ''-task r'', ''-train /tmp/a'', ''-test /tmp/b'',
         ''-dim '' @ [CHR 0x27] @ ''1,1,8'' @ [CHR 0x27], ''-init_stdev 0.1'', ''-iter 100'',
         ''-method sgda'', ''-out /tmp/c'', ''-verbosity 0'', ''-save_model /tmp/d'',
         ''-rlog /tmp/e'', ''-learn_rate 0.100000'',
         ''-regular '' @ [CHR 0x27] @ ''0.000000,0.000000,0.000000'' @ [CHR 0x27],
         ''-validation /tmp/f''],
        \<lparr>train_fd = 3, train_path = ''/tmp/a'', test_fd = 4, test_path = ''/tmp/b'',
         out_fd = 5, out_path = ''/tmp/c'', model_fd = 6, model_path = ''/tmp/d'',
         rlog_tmp = Some (7, ''/tmp/e''), validation_tmp = Some (8, ''/tmp/f'')\<rparr>)"
  "files (snd (ex_build_args ''sgda'' (Some [''1:1'']) (Some [''1'']))) ''/tmp/f'' = Some ''1 1:1\<newline>''"
  by (simp_all add: ex_build_args_def build_args_def append_rlog_def append_validation_def
      io_defs ex_defs fmt_d_def)

text \<open>\<^verbatim>\<open>sgda\<close> with the validation targets missing: no \<^verbatim>\<open>-validation\<close> element.\<close>

lemma ex_build_args_no_validation:
  "fst (ex_build_args ''sgda'' (Some [''1:1'']) None) =
   Inr ([''/opt/libfm/bin/libFM'', ''-task r'', ''-train /tmp/a'', ''-test /tmp/b'',
         ''-dim '' @ [CHR 0x27] @ ''1,1,8'' @ [CHR 0x27], ''-init_stdev 0.1'', ''-iter 100'',
         ''-method sgda'', ''-out /tmp/c'', ''-verbosity 0'', ''-save_model /tmp/d'',
         ''-rlog /tmp/e'', ''-learn_rate 0.100000'',
         ''-regular '' @ [CHR 0x27] @ ''0.000000,0.000000,0.000000'' @ [CHR 0x27]],
        \<lparr>train_fd = 3, train_path = ''/tmp/a'', test_fd = 4, test_path = ''/tmp/b'',
         out_fd = 5, out_path = ''/tmp/c'', model_fd = 6, model_path = ''/tmp/d'',
         rlog_tmp = Some (7, ''/tmp/e''), validation_tmp = None\<rparr>)"
  by (simp add: ex_build_args_def build_args_def append_rlog_def append_validation_def
      io_defs ex_defs fmt_d_def)

text \<open>The default method \<^verbatim>\<open>mcmc\<close>: neither \<^verbatim>\<open>-learn_rate\<close> nor \<^verbatim>\<open>-regular\<close>.\<close>

lemma ex_build_args_mcmc:
  "fst (ex_build_args ''mcmc'' None None) =
   Inr ([''/opt/libfm/bin/libFM'', ''-task r'', ''-train /tmp/a'', ''-test /tmp/b'',
         ''-dim '' @ [CHR 0x27] @ ''1,1,8'' @ [CHR 0x27], ''-init_stdev 0.1'', ''-iter 100'',
         ''-method mcmc'', ''-out /tmp/c'', ''-verbosity 0'', ''-save_model /tmp/d'',
         ''-rlog /tmp/e''],
        \<lparr>train_fd = 3, train_path = ''/tmp/a'', test_fd = 4, test_path = ''/tmp/b'',
         out_fd = 5, out_path = ''/tmp/c'', model_fd = 6, model_path = ''/tmp/d'',
         rlog_tmp = Some (7, ''/tmp/e''), validation_tmp = None\<rparr>)"
  by (simp add: ex_build_args_def build_args_def append_rlog_def append_validation_def
      io_defs ex_defs fmt_d_def)

text \<open>
  A run with the process that writes its three files: the results are parsed, five
  temporary files were allocated, none of them is left and only the three standard
  descriptors are open.
\<close>

lemma ex_run_ok:
  "fst (ex_run ex_libfm ''mcmc'' None None) =
     Inr \<lparr>predictions = [3 / 2, 5 / 2], global_bias = Some 5, weights = [1, 2],
          pairwise_interactions = [[1 / 10, 1 / 5], [3 / 10, 2 / 5]],
          rlog_df = Some [[''rmse''], [''0.5'']]\<rparr>"
  "tmp_log (snd (ex_run ex_libfm ''mcmc'' None None)) =
     [(3, ''/tmp/a''), (4, ''/tmp/b''), (5, ''/tmp/c''), (6, ''/tmp/d''), (7, ''/tmp/e'')]"
  "files (snd (ex_run ex_libfm ''mcmc'' None None)) = Map.empty"
  "open_fds (snd (ex_run ex_libfm ''mcmc'' None None)) = [0, 1, 2]"
  by (simp_all add: ex_run_def run_defs io_defs ex_defs ex_libfm_def decimal_examples)

text \<open>
  A run with the process that writes \<^verbatim>\<open>abc\<close> where the predictions belong:
  \<^verbatim>\<open>float\<close> raises at line 197, and the five temporary files and their descriptors
  are still there.
\<close>

lemma ex_run_broken:
  "fst (ex_run ex_broken_libfm ''mcmc'' None None) = Inl ValueError"
  "tmp_log (snd (ex_run ex_broken_libfm ''mcmc'' None None)) =
     [(3, ''/tmp/a''), (4, ''/tmp/b''), (5, ''/tmp/c''), (6, ''/tmp/d''), (7, ''/tmp/e'')]"
  "map (files (snd (ex_run ex_broken_libfm ''mcmc'' None None)))
       [''/tmp/a'', ''/tmp/b'', ''/tmp/c'', ''/tmp/d'', ''/tmp/e''] =
     [Some ''0 1:1\<newline>'', Some ''0 1:1\<newline>'', Some ''abc'', Some [], Some []]"
  "open_fds (snd (ex_run ex_broken_libfm ''mcmc'' None None)) = [7, 6, 5, 4, 3, 0, 1, 2]"
  by (simp_all add: ex_run_def run_defs io_defs ex_defs ex_broken_libfm_def decimal_examples)

lemma ex_world_empty: "tmp_log ex_world = []" "files ex_world = Map.empty" "open_fds ex_world = [0, 1, 2]"
  by (simp_all add: ex_world_def)

subsection \<open>The command\<close>

lemma build_args_steps:
  assumes "build_args E self x_train y_train x_test y_test xv yv w = (Inr (args, t), w')"
  shows "\<exists>w1 w2 w3 w4 w5 w6 w7 u1 u2 args1 args4.
      mkstemp (fm_temp_path self) w = (Inr (train_fd t, train_path t), w1) \<and>
      mkstemp (fm_temp_path self) w1 = (Inr (test_fd t, test_path t), w2) \<and>
      mkstemp (fm_temp_path self) w2 = (Inr (out_fd t, out_path t), w3) \<and>
      mkstemp (fm_temp_path self) w3 = (Inr (model_fd t, model_path t), w4) \<and>
      dump_svmlight_file E x_train y_train (train_path t) w4 = (Inr u1, w5) \<and>
      dump_svmlight_file E x_test y_test (test_path t) w5 = (Inr u2, w6) \<and>
      append_rlog self
        [fm_libfm_path self @ ''libFM'',
         ''-task '' @ [fm_task self],
         ''-train '' @ train_path t,
         ''-test '' @ test_path t,
         ''-dim '' @ [CHR 0x27] @ fm_dim self @ [CHR 0x27],
         ''-init_stdev '' @ fmt_g E (fm_init_stdev self),
         ''-iter '' @ fmt_d (fm_num_iter self),
         ''-method '' @ fm_learning_method self,
         ''-out '' @ out_path t,
         ''-verbosity '' @ fmt_d (fm_verbose self),
         ''-save_model '' @ model_path t] w6 = (Inr (rlog_tmp t, args1), w7) \<and>
      append_validation E self xv yv
        (args1 @
         (if fm_learning_method self \<in> set [''sgd'', ''sgda'']
          then [''-learn_rate '' @ fmt_f E (fm_learn_rate self)] else []) @
         (if fm_learning_method self \<in> set [''sgd'', ''sgda'', ''als'']
          then [''-regular '' @ [CHR 0x27] @ fm_regularization self @ [CHR 0x27]] else []))
        w7 = (Inr (validation_tmp t, args4), w') \<and>
      args = args4 @ (if fm_silent self then ['' &> /dev/null''] else [])"
  using assms
  apply (simp only: build_args_def Let_def bind_io_eq_Inr split_paired_Ex prod.case ret_eq prod.inject)
  apply (elim exE conjE)
  apply (simp del: set_simps append.simps)
  apply (auto simp del: set_simps)
  done

lemma build_args_Inr:
  assumes "build_args E self x_train y_train x_test y_test xv yv w = (Inr (args, t), w')"
  shows "args =
      [fm_libfm_path self @ ''libFM'',
       ''-task '' @ [fm_task self],
       ''-train '' @ train_path t,
       ''-test '' @ test_path t,
       ''-dim '' @ [CHR 0x27] @ fm_dim self @ [CHR 0x27],
       ''-init_stdev '' @ fmt_g E (fm_init_stdev self),
       ''-iter '' @ fmt_d (fm_num_iter self),
       ''-method '' @ fm_learning_method self,
       ''-out '' @ out_path t,
       ''-verbosity '' @ fmt_d (fm_verbose self),
       ''-save_model '' @ model_path t] @
      (case rlog_tmp t of None \<Rightarrow> [] | Some (fd, p) \<Rightarrow> [''-rlog '' @ p]) @
      (if fm_learning_method self \<in> set [''sgd'', ''sgda'']
       then [''-learn_rate '' @ fmt_f E (fm_learn_rate self)] else []) @
      (if fm_learning_method self \<in> set [''sgd'', ''sgda'', ''als'']
       then [''-regular '' @ [CHR 0x27] @ fm_regularization self @ [CHR 0x27]] else []) @
      (case validation_tmp t of None \<Rightarrow> [] | Some (fd, p) \<Rightarrow> [''-validation '' @ p]) @
      (if fm_silent self then ['' &> /dev/null''] else [])"
    and "rlog_tmp t \<noteq> None \<longleftrightarrow> fm_rlog self"
    and "validation_tmp t \<noteq> None \<longleftrightarrow> fm_learning_method self = ''sgda'' \<and> xv \<noteq> None \<and> yv \<noteq> None"
    and "tmp_log w' = tmp_log w @
      [(train_fd t, train_path t), (test_fd t, test_path t), (out_fd t, out_path t),
       (model_fd t, model_path t)] @
      (case rlog_tmp t of None \<Rightarrow> [] | Some x \<Rightarrow> [x]) @
      (case validation_tmp t of None \<Rightarrow> [] | Some x \<Rightarrow> [x])"
    and "cmd_log w' = cmd_log w"
    and "\<forall>fd p x y. validation_tmp t = Some (fd, p) \<and> xv = Some x \<and> yv = Some y \<longrightarrow>
         files w p = None \<and> files w' p = dump_svmlight E x y \<and> dump_svmlight E x y \<noteq> None"
proof -
  from build_args_steps [OF assms] obtain w1 w2 w3 w4 w5 w6 w7 u1 u2 args0 args1 args4
    where m1: "mkstemp (fm_temp_path self) w = (Inr (train_fd t, train_path t), w1)"
      and m2: "mkstemp (fm_temp_path self) w1 = (Inr (test_fd t, test_path t), w2)"
      and m3: "mkstemp (fm_temp_path self) w2 = (Inr (out_fd t, out_path t), w3)"
      and m4: "mkstemp (fm_temp_path self) w3 = (Inr (model_fd t, model_path t), w4)"
      and d1: "dump_svmlight_file E x_train y_train (train_path t) w4 = (Inr u1, w5)"
      and d2: "dump_svmlight_file E x_test y_test (test_path t) w5 = (Inr u2, w6)"
      and r: "append_rlog self args0 w6 = (Inr (rlog_tmp t, args1), w7)"
      and a0: "args0 = [fm_libfm_path self @ ''libFM'',
         ''-task '' @ [fm_task self],
         ''-train '' @ train_path t,
         ''-test '' @ test_path t,
         ''-dim '' @ [CHR 0x27] @ fm_dim self @ [CHR 0x27],
         ''-init_stdev '' @ fmt_g E (fm_init_stdev self),
         ''-iter '' @ fmt_d (fm_num_iter self),
         ''-method '' @ fm_learning_method self,
         ''-out '' @ out_path t,
         ''-verbosity '' @ fmt_d (fm_verbose self),
         ''-save_model '' @ model_path t]"
      and v: "append_validation E self xv yv
        (args1 @
         (if fm_learning_method self \<in> set [''sgd'', ''sgda'']
          then [''-learn_rate '' @ fmt_f E (fm_learn_rate self)] else []) @
         (if fm_learning_method self \<in> set [''sgd'', ''sgda'', ''als'']
          then [''-regular '' @ [CHR 0x27] @ fm_regularization self @ [CHR 0x27]] else []))
        w7 = (Inr (validation_tmp t, args4), w')"
      and a: "args = args4 @ (if fm_silent self then ['' &> /dev/null''] else [])"
    by blast
  note M1 = mkstemp_Inr [OF m1] and M2 = mkstemp_Inr [OF m2] and M3 = mkstemp_Inr [OF m3]
    and M4 = mkstemp_Inr [OF m4] and D1 = dump_svmlight_file_Inr [OF d1]
    and D2 = dump_svmlight_file_Inr [OF d2] and R = append_rlog_Inr [OF r]
    and V = append_validation_Inr [OF v]
  from R V have "args = args0 @
      (case rlog_tmp t of None \<Rightarrow> [] | Some (fd, p) \<Rightarrow> [''-rlog '' @ p]) @
      (if fm_learning_method self \<in> set [''sgd'', ''sgda'']
       then [''-learn_rate '' @ fmt_f E (fm_learn_rate self)] else []) @
      (if fm_learning_method self \<in> set [''sgd'', ''sgda'', ''als'']
       then [''-regular '' @ [CHR 0x27] @ fm_regularization self @ [CHR 0x27]] else []) @
      (case validation_tmp t of None \<Rightarrow> [] | Some (fd, p) \<Rightarrow> [''-validation '' @ p]) @
      (if fm_silent self then ['' &> /dev/null''] else [])"
    by (simp only: a append_assoc)
  then show "args =
      [fm_libfm_path self @ ''libFM'',
       ''-task '' @ [fm_task self],
       ''-train '' @ train_path t,
       ''-test '' @ test_path t,
       ''-dim '' @ [CHR 0x27] @ fm_dim self @ [CHR 0x27],
       ''-init_stdev '' @ fmt_g E (fm_init_stdev self),
       ''-iter '' @ fmt_d (fm_num_iter self),
       ''-method '' @ fm_learning_method self,
       ''-out '' @ out_path t,
       ''-verbosity '' @ fmt_d (fm_verbose self),
       ''-save_model '' @ model_path t] @
      (case rlog_tmp t of None \<Rightarrow> [] | Some (fd, p) \<Rightarrow> [''-rlog '' @ p]) @
      (if fm_learning_method self \<in> set [''sgd'', ''sgda'']
       then [''-learn_rate '' @ fmt_f E (fm_learn_rate self)] else []) @
      (if fm_learning_method self \<in> set [''sgd'', ''sgda'', ''als'']
       then [''-regular '' @ [CHR 0x27] @ fm_regularization self @ [CHR 0x27]] else []) @
      (case validation_tmp t of None \<Rightarrow> [] | Some (fd, p) \<Rightarrow> [''-validation '' @ p]) @
      (if fm_silent self then ['' &> /dev/null''] else [])"
    by (simp only: a0)
  show "rlog_tmp t \<noteq> None \<longleftrightarrow> fm_rlog self" using R by blast
  show "validation_tmp t \<noteq> None \<longleftrightarrow> fm_learning_method self = ''sgda'' \<and> xv \<noteq> None \<and> yv \<noteq> None"
    using V by blast
  show "tmp_log w' = tmp_log w @
      [(train_fd t, train_path t), (test_fd t, test_path t), (out_fd t, out_path t),
       (model_fd t, model_path t)] @
      (case rlog_tmp t of None \<Rightarrow> [] | Some x \<Rightarrow> [x]) @
      (case validation_tmp t of None \<Rightarrow> [] | Some x \<Rightarrow> [x])"
    using M1 M2 M3 M4 D1 D2 R V by simp
  show "cmd_log w' = cmd_log w"
    using M1 M2 M3 M4 D1 D2 R V by simp
  have mono: "files w p = None" if "files w7 p = None" for p
  proof -
    from that R have "files w6 p = None" by blast
    with D2 D1 have "files w4 p = None" by (auto split: if_splits)
    with M4 M3 M2 M1 show ?thesis by (auto split: if_splits)
  qed
  show "\<forall>fd p x y. validation_tmp t = Some (fd, p) \<and> xv = Some x \<and> yv = Some y \<longrightarrow>
         files w p = None \<and> files w' p = dump_svmlight E x y \<and> dump_svmlight E x y \<noteq> None"
    using V mono by auto
qed

lemma build_args_flags:
  assumes "build_args E self x_train y_train x_test y_test xv yv w = (Inr (args, t), w')"
  shows "map flag_of (tl args) =
      [''-task'', ''-train'', ''-test'', ''-dim'', ''-init_stdev'', ''-iter'', ''-method'', ''-out'',
       ''-verbosity'', ''-save_model''] @
      (if fm_rlog self then [''-rlog''] else []) @
      (if fm_learning_method self \<in> set [''sgd'', ''sgda''] then [''-learn_rate''] else []) @
      (if fm_learning_method self \<in> set [''sgd'', ''sgda'', ''als''] then [''-regular''] else []) @
      (if fm_learning_method self = ''sgda'' \<and> xv \<noteq> None \<and> yv \<noteq> None then [''-validation''] else []) @
      (if fm_silent self then [[]] else [])"
proof -
  note B = build_args_Inr [OF assms]
  have r: "map flag_of (case rlog_tmp t of None \<Rightarrow> [] | Some (fd, p) \<Rightarrow> [''-rlog '' @ p]) =
      (if fm_rlog self then [''-rlog''] else [])"
    using B(2) by (cases "rlog_tmp t") (auto simp: flag_of_def)
  have v: "map flag_of (case validation_tmp t of None \<Rightarrow> [] | Some (fd, p) \<Rightarrow> [''-validation '' @ p]) =
      (if fm_learning_method self = ''sgda'' \<and> xv \<noteq> None \<and> yv \<noteq> None then [''-validation''] else [])"
    using B(3) by (cases "validation_tmp t") (auto simp: flag_of_def)
  have l: "map flag_of (if c then [''-learn_rate '' @ x] else []) = (if c then [''-learn_rate''] else [])" for c x
    by (simp add: flag_of_def)
  have g: "map flag_of (if c then [''-regular '' @ x] else []) = (if c then [''-regular''] else [])" for c x
    by (simp add: flag_of_def)
  have s: "map flag_of (if c then ['' &> /dev/null''] else []) = (if c then [[]] else [])" for c
    by (simp add: flag_of_def)
  have h: "map flag_of [''-task '' @ a1, ''-train '' @ a2, ''-test '' @ a3, ''-dim '' @ a4,
       ''-init_stdev '' @ a5, ''-iter '' @ a6, ''-method '' @ a7, ''-out '' @ a8,
       ''-verbosity '' @ a9, ''-save_model '' @ a10] =
      [''-task'', ''-train'', ''-test'', ''-dim'', ''-init_stdev'', ''-iter'', ''-method'', ''-out'',
       ''-verbosity'', ''-save_model'']" for a1 a2 a3 a4 a5 a6 a7 a8 a9 a10
    by (simp add: flag_of_def)
  show ?thesis
    unfolding B(1) by (simp add: r [simplified] v [simplified] l [simplified] g [simplified] s [simplified] h [simplified])
qed

text \<open>
  Claim C1. In the argument list that \<^verbatim>\<open>run\<close> builds, among the elements after the
  program path, each of the ten flags \<^verbatim>\<open>-task\<close>, \<^verbatim>\<open>-train\<close>, \<^verbatim>\<open>-test\<close>, \<^verbatim>\<open>-dim\<close>,
  \<^verbatim>\<open>-init_stdev\<close>, \<^verbatim>\<open>-iter\<close>, \<^verbatim>\<open>-method\<close>, \<^verbatim>\<open>-out\<close>, \<^verbatim>\<open>-verbosity\<close> and
  \<^verbatim>\<open>-save_model\<close> occurs exactly once; \<^verbatim>\<open>-learn_rate\<close> occurs (once) if and only if
  the learning method is \<^verbatim>\<open>sgd\<close> or \<^verbatim>\<open>sgda\<close>, \<^verbatim>\<open>-regular\<close> if and only if it is
  \<^verbatim>\<open>sgd\<close>, \<^verbatim>\<open>sgda\<close> or \<^verbatim>\<open>als\<close>, and \<^verbatim>\<open>-rlog\<close> if and only if \<^verbatim>\<open>self.__rlog\<close> is
  true. This holds for every object, valid or not.
\<close>

theorem flags_of_command:
  assumes "build_args E self x_train y_train x_test y_test xv yv w = (Inr (args, t), w')"
  shows "(\<forall>f\<in>set [''-task'', ''-train'', ''-test'', ''-dim'', ''-init_stdev'', ''-iter'',
                  ''-method'', ''-out'', ''-verbosity'', ''-save_model''].
            count_list (map flag_of (tl args)) f = 1) \<and>
         count_list (map flag_of (tl args)) ''-learn_rate'' =
           (if fm_learning_method self \<in> set [''sgd'', ''sgda''] then 1 else 0) \<and>
         count_list (map flag_of (tl args)) ''-regular'' =
           (if fm_learning_method self \<in> set [''sgd'', ''sgda'', ''als''] then 1 else 0) \<and>
         count_list (map flag_of (tl args)) ''-rlog'' = (if fm_rlog self then 1 else 0)"
  unfolding build_args_flags [OF assms] by simp

theorem flags_of_command_witness:
  "fst (ex_build_args ''mcmc'' None None) =
   Inr ([''/opt/libfm/bin/libFM'', ''-task r'', ''-train /tmp/a'', ''-test /tmp/b'',
         ''-dim '' @ [CHR 0x27] @ ''1,1,8'' @ [CHR 0x27], ''-init_stdev 0.1'', ''-iter 100'',
         ''-method mcmc'', ''-out /tmp/c'', ''-verbosity 0'', ''-save_model /tmp/d'',
         ''-rlog /tmp/e''],
        \<lparr>train_fd = 3, train_path = ''/tmp/a'', test_fd = 4, test_path = ''/tmp/b'',
         out_fd = 5, out_path = ''/tmp/c'', model_fd = 6, model_path = ''/tmp/d'',
         rlog_tmp = Some (7, ''/tmp/e''), validation_tmp = None\<rparr>) \<and>
   list_all (\<lambda>f. count_list (map flag_of
        [''-task r'', ''-train /tmp/a'', ''-test /tmp/b'',
         ''-dim '' @ [CHR 0x27] @ ''1,1,8'' @ [CHR 0x27], ''-init_stdev 0.1'', ''-iter 100'',
         ''-method mcmc'', ''-out /tmp/c'', ''-verbosity 0'', ''-save_model /tmp/d'',
         ''-rlog /tmp/e'']) f = 1)
     [''-task'', ''-train'', ''-test'', ''-dim'', ''-init_stdev'', ''-iter'',
      ''-method'', ''-out'', ''-verbosity'', ''-save_model'', ''-rlog''] \<and>
   list_all (\<lambda>f. count_list (map flag_of
        [''-task r'', ''-train /tmp/a'', ''-test /tmp/b'',
         ''-dim '' @ [CHR 0x27] @ ''1,1,8'' @ [CHR 0x27], ''-init_stdev 0.1'', ''-iter 100'',
         ''-method mcmc'', ''-out /tmp/c'', ''-verbosity 0'', ''-save_model /tmp/d'',
         ''-rlog /tmp/e'']) f = 0)
     [''-learn_rate'', ''-regular'']"
proof -
  obtain w' where b: "build_args (ex_externals ex_libfm) (ex_fm ''mcmc'') [''1:1''] [''0''] [''1:1''] [''0'']
        None None ex_world =
      (Inr ([''/opt/libfm/bin/libFM'', ''-task r'', ''-train /tmp/a'', ''-test /tmp/b'',
         ''-dim '' @ [CHR 0x27] @ ''1,1,8'' @ [CHR 0x27], ''-init_stdev 0.1'', ''-iter 100'',
         ''-method mcmc'', ''-out /tmp/c'', ''-verbosity 0'', ''-save_model /tmp/d'',
         ''-rlog /tmp/e''],
        \<lparr>train_fd = 3, train_path = ''/tmp/a'', test_fd = 4, test_path = ''/tmp/b'',
         out_fd = 5, out_path = ''/tmp/c'', model_fd = 6, model_path = ''/tmp/d'',
         rlog_tmp = Some (7, ''/tmp/e''), validation_tmp = None\<rparr>), w')"
    using ex_build_args_mcmc unfolding ex_build_args_def by (metis prod.collapse)
  show ?thesis
    using flags_of_command [OF b] ex_build_args_mcmc by (simp add: ex_fm_fields)
qed

text \<open>
  Claim C9. The argument list holds \<^verbatim>\<open>-validation\<close> (once) if and only if the learning
  method is \<^verbatim>\<open>sgda\<close> and both validation arguments are supplied; so for \<^verbatim>\<open>sgda\<close> with
  either of them missing it holds none. When it is there, its value is the path of a
  temporary file allocated by this call, which did not exist before and now holds the
  validation set as \<^verbatim>\<open>dump_svmlight_file\<close> writes it.
\<close>

theorem validation_flag:
  assumes "build_args E self x_train y_train x_test y_test xv yv w = (Inr (args, t), w')"
  shows "count_list (map flag_of (tl args)) ''-validation'' =
           (if fm_learning_method self = ''sgda'' \<and> xv \<noteq> None \<and> yv \<noteq> None then 1 else 0) \<and>
         (fm_learning_method self = ''sgda'' \<and> xv = Some x \<and> yv = Some y \<longrightarrow>
            (\<exists>fd p. validation_tmp t = Some (fd, p) \<and> ''-validation '' @ p \<in> set (tl args) \<and>
               (fd, p) \<in> set (drop (length (tmp_log w)) (tmp_log w')) \<and> files w p = None \<and>
               files w' p = dump_svmlight E x y \<and> dump_svmlight E x y \<noteq> None))"
proof -
  note B = build_args_Inr [OF assms]
  have count: "count_list (map flag_of (tl args)) ''-validation'' =
           (if fm_learning_method self = ''sgda'' \<and> xv \<noteq> None \<and> yv \<noteq> None then 1 else 0)"
    unfolding build_args_flags [OF assms] by simp
  have fresh: "\<exists>fd p. validation_tmp t = Some (fd, p) \<and> ''-validation '' @ p \<in> set (tl args) \<and>
               (fd, p) \<in> set (drop (length (tmp_log w)) (tmp_log w')) \<and> files w p = None \<and>
               files w' p = dump_svmlight E x y \<and> dump_svmlight E x y \<noteq> None"
    if "fm_learning_method self = ''sgda''" "xv = Some x" "yv = Some y"
  proof -
    from that B(3) obtain fd p where v: "validation_tmp t = Some (fd, p)" by auto
    with B(6) that have "files w p = None \<and> files w' p = dump_svmlight E x y \<and>
        dump_svmlight E x y \<noteq> None"
      by blast
    moreover have "''-validation '' @ p \<in> set (tl args)"
      unfolding B(1) by (simp add: v)
    moreover have "(fd, p) \<in> set (drop (length (tmp_log w)) (tmp_log w'))"
      by (simp add: B(4) v)
    ultimately show ?thesis using v by blast
  qed
  show ?thesis using count fresh by blast
qed

theorem validation_flag_witness:
  "fst (ex_build_args ''sgda'' (Some [''1:1'']) None) =
   Inr ([''/opt/libfm/bin/libFM'', ''-task r'', ''-train /tmp/a'', ''-test /tmp/b'',
         ''-dim '' @ [CHR 0x27] @ ''1,1,8'' @ [CHR 0x27], ''-init_stdev 0.1'', ''-iter 100'',
         ''-method sgda'', ''-out /tmp/c'', ''-verbosity 0'', ''-save_model /tmp/d'',
         ''-rlog /tmp/e'', ''-learn_rate 0.100000'',
         ''-regular '' @ [CHR 0x27] @ ''0.000000,0.000000,0.000000'' @ [CHR 0x27]],
        \<lparr>train_fd = 3, train_path = ''/tmp/a'', test_fd = 4, test_path = ''/tmp/b'',
         out_fd = 5, out_path = ''/tmp/c'', model_fd = 6, model_path = ''/tmp/d'',
         rlog_tmp = Some (7, ''/tmp/e''), validation_tmp = None\<rparr>) \<and>
   count_list (map flag_of
        [''-task r'', ''-train /tmp/a'', ''-test /tmp/b'',
         ''-dim '' @ [CHR 0x27] @ ''1,1,8'' @ [CHR 0x27], ''-init_stdev 0.1'', ''-iter 100'',
         ''-method sgda'', ''-out /tmp/c'', ''-verbosity 0'', ''-save_model /tmp/d'',
         ''-rlog /tmp/e'', ''-learn_rate 0.100000'',
         ''-regular '' @ [CHR 0x27] @ ''0.000000,0.000000,0.000000'' @ [CHR 0x27]])
     ''-validation'' = 0 \<and>
   (\<exists>args t. fst (ex_build_args ''sgda'' (Some [''1:1'']) (Some [''1''])) = Inr (args, t) \<and>
      count_list (map flag_of (tl args)) ''-validation'' = 1 \<and>
      validation_tmp t = Some (8, ''/tmp/f'') \<and> ''-validation /tmp/f'' \<in> set (tl args)) \<and>
   files ex_world ''/tmp/f'' = None \<and>
   files (snd (ex_build_args ''sgda'' (Some [''1:1'']) (Some [''1'']))) ''/tmp/f'' = Some ''1 1:1\<newline>''"
proof -
  obtain args1 t1 w1 where b1:
      "build_args (ex_externals ex_libfm) (ex_fm ''sgda'') [''1:1''] [''0''] [''1:1''] [''0'']
         (Some [''1:1'']) None ex_world = (Inr (args1, t1), w1)"
    and e1: "fst (ex_build_args ''sgda'' (Some [''1:1'']) None) = Inr (args1, t1)"
    using ex_build_args_no_validation unfolding ex_build_args_def by (metis prod.collapse)
  obtain args2 t2 w2 where b2:
      "build_args (ex_externals ex_libfm) (ex_fm ''sgda'') [''1:1''] [''0''] [''1:1''] [''0'']
         (Some [''1:1'']) (Some [''1'']) ex_world = (Inr (args2, t2), w2)"
    and e2: "fst (ex_build_args ''sgda'' (Some [''1:1'']) (Some [''1''])) = Inr (args2, t2)"
    using ex_build_args_validation(1) unfolding ex_build_args_def by (metis prod.collapse)
  from validation_flag [OF b1, of "[''1:1'']" "[''1'']"]
  have c1: "count_list (map flag_of (tl args1)) ''-validation'' = 0"
    by (simp add: ex_fm_fields)
  from validation_flag [OF b2, of "[''1:1'']" "[''1'']"]
  have c2: "count_list (map flag_of (tl args2)) ''-validation'' = 1"
    by (simp add: ex_fm_fields)
  from e2 ex_build_args_validation(1)
  have v2: "validation_tmp t2 = Some (8, ''/tmp/f'')" "''-validation /tmp/f'' \<in> set (tl args2)"
    by auto
  from e1 ex_build_args_no_validation
  have a1: "tl args1 = [''-task r'', ''-train /tmp/a'', ''-test /tmp/b'',
         ''-dim '' @ [CHR 0x27] @ ''1,1,8'' @ [CHR 0x27], ''-init_stdev 0.1'', ''-iter 100'',
         ''-method sgda'', ''-out /tmp/c'', ''-verbosity 0'', ''-save_model /tmp/d'',
         ''-rlog /tmp/e'', ''-learn_rate 0.100000'',
         ''-regular '' @ [CHR 0x27] @ ''0.000000,0.000000,0.000000'' @ [CHR 0x27]]"
    by auto
  show ?thesis
    using c1 [unfolded a1] c2 v2 e2 ex_build_args_no_validation ex_build_args_validation(2)
    by (auto simp: ex_world_empty)
qed

subsection \<open>The exit code\<close>

lemma dump_svmlight_file_exit_code:
  "dump_svmlight_file (E\<lparr>libfm_process := f\<rparr>) = dump_svmlight_file E"
  by (intro ext) (simp add: dump_svmlight_file_def)

lemma append_validation_exit_code:
  "append_validation (E\<lparr>libfm_process := f\<rparr>) = append_validation E"
  by (intro ext) (simp add: append_validation_def dump_svmlight_file_exit_code cong: option.case_cong if_cong)

lemma build_args_exit_code:
  "build_args (E\<lparr>libfm_process := f\<rparr>) self x_train y_train x_test y_test xv yv =
   build_args E self x_train y_train x_test y_test xv yv"
  unfolding build_args_def
  by (simp add: dump_svmlight_file_exit_code append_validation_exit_code cong: if_cong)

lemma call_exit_code:
  "bind_io (call (E\<lparr>libfm_process := \<lambda>cmd fs. (code cmd fs, snd (libfm_process E cmd fs))\<rparr>) args) (\<lambda>exit_code. k) =
   bind_io (call E args) (\<lambda>exit_code. k)"
  by (simp add: call_def bind_io_def)

lemma finish_exit_code:
  "finish (E\<lparr>libfm_process := \<lambda>cmd fs. (code cmd fs, snd (libfm_process E cmd fs))\<rparr>) self xv yv args t =
   finish E self xv yv args t"
  unfolding finish_def call_exit_code by (simp add: parse_rlog_def cong: if_cong option.case_cong)

text \<open>
  Claim C6. The exit code of the process has no influence on \<^verbatim>\<open>run\<close>: replacing the
  exit code of the process by any other, with the same effect on the files, gives the
  same result (value or exception) and the same world. So \<^verbatim>\<open>run\<close> goes on to read the
  output and the model file in the same way after a zero and after a non-zero exit code.
\<close>

theorem exit_code_ignored:
  "run (E\<lparr>libfm_process := \<lambda>cmd fs. (code cmd fs, snd (libfm_process E cmd fs))\<rparr>)
       self x_train y_train x_test y_test xv yv w =
   run E self x_train y_train x_test y_test xv yv w"
  by (simp only: run_def build_args_exit_code finish_exit_code)

theorem exit_code_ignored_witness:
  "fst (libfm_process (ex_externals ex_libfm) [] Map.empty) = 0 \<and>
   ex_run (\<lambda>cmd fs. (1, snd (ex_libfm cmd fs))) ''mcmc'' None None =
   ex_run ex_libfm ''mcmc'' None None \<and>
   fst (ex_run (\<lambda>cmd fs. (1, snd (ex_libfm cmd fs))) ''mcmc'' None None) =
     Inr \<lparr>predictions = [3 / 2, 5 / 2], global_bias = Some 5, weights = [1, 2],
          pairwise_interactions = [[1 / 10, 1 / 5], [3 / 10, 2 / 5]],
          rlog_df = Some [[''rmse''], [''0.5'']]\<rparr>"
proof -
  have "ex_run (\<lambda>cmd fs. (1, snd (ex_libfm cmd fs))) ''mcmc'' None None =
      ex_run ex_libfm ''mcmc'' None None"
    using exit_code_ignored [where E = "ex_externals ex_libfm" and code = "\<lambda>cmd fs. 1"
        and self = "ex_fm ''mcmc''" and x_train = "[''1:1'']" and y_train = "[''0'']"
        and x_test = "[''1:1'']" and y_test = "[''0'']" and xv = None and yv = None
        and w = ex_world]
    by (simp add: ex_run_def ex_externals_process)
  then show ?thesis
    using ex_run_ok(1) by (simp add: ex_externals_process ex_libfm_def)
qed

subsection \<open>The temporary files\<close>

lemma finish_steps:
  assumes "finish E self xv yv args t w = (Inr r, w')"
  shows "\<exists>c w1 x w2 y w3 u1 w4 u2 w5 u3 w6 u4 w7 u5 w8 u6 w9 u7 w10 u8.
      call E (join '' '' args) w = (Inr c, w1) \<and>
      parse_rlog E self t w1 = (Inr x, w2) \<and>
      remove_validation self xv yv t w2 = (Inr y, w3) \<and>
      os_close (train_fd t) w3 = (Inr u1, w4) \<and> os_remove (train_path t) w4 = (Inr u2, w5) \<and>
      os_close (test_fd t) w5 = (Inr u3, w6) \<and> os_remove (test_path t) w6 = (Inr u4, w7) \<and>
      os_close (model_fd t) w7 = (Inr u5, w8) \<and> os_remove (model_path t) w8 = (Inr u6, w9) \<and>
      os_close (out_fd t) w9 = (Inr u7, w10) \<and> os_remove (out_path t) w10 = (Inr u8, w')"
  using assms
  apply (simp only: finish_def bind_io_eq_Inr split_paired_Ex prod.case ret_eq prod.inject)
  apply (elim exE conjE)
  apply (auto dest!: read_file_Inr of_result_Inr matrix_Inr)
  done

lemma finish_Inr:
  assumes "finish E self xv yv args t w = (Inr r, w')"
  shows "tmp_log w' = tmp_log w"
    and "cmd_log w' = cmd_log w @ [join '' '' args]"
    and "files w' (train_path t) = None \<and> train_fd t \<notin> set (open_fds w')"
    and "files w' (test_path t) = None \<and> test_fd t \<notin> set (open_fds w')"
    and "files w' (out_path t) = None \<and> out_fd t \<notin> set (open_fds w')"
    and "files w' (model_path t) = None \<and> model_fd t \<notin> set (open_fds w')"
    and "fm_rlog self \<longrightarrow>
           (\<exists>fd p. rlog_tmp t = Some (fd, p) \<and> files w' p = None \<and> fd \<notin> set (open_fds w'))"
    and "fm_learning_method self = ''sgda'' \<and> xv \<noteq> None \<and> yv \<noteq> None \<longrightarrow>
           (\<exists>fd p. validation_tmp t = Some (fd, p) \<and> files w' p = None \<and> fd \<notin> set (open_fds w'))"
proof -
  from finish_steps [OF assms]
  obtain c w1 x w2 y w3 u1 w4 u2 w5 u3 w6 u4 w7 u5 w8 u6 w9 u7 w10 u8 where
      s0: "call E (join '' '' args) w = (Inr c, w1)" and
      s1: "parse_rlog E self t w1 = (Inr x, w2)" and
      s2: "remove_validation self xv yv t w2 = (Inr y, w3)" and
      c1: "os_close (train_fd t) w3 = (Inr u1, w4)" and r1: "os_remove (train_path t) w4 = (Inr u2, w5)" and
      c2: "os_close (test_fd t) w5 = (Inr u3, w6)" and r2: "os_remove (test_path t) w6 = (Inr u4, w7)" and
      c3: "os_close (model_fd t) w7 = (Inr u5, w8)" and r3: "os_remove (model_path t) w8 = (Inr u6, w9)" and
      c4: "os_close (out_fd t) w9 = (Inr u7, w10)" and r4: "os_remove (out_path t) w10 = (Inr u8, w')"
    by (elim exE conjE) (rule that)
  note S0 = call_Inr [OF s0] and S1 = parse_rlog_Inr [OF s1] and S2 = remove_validation_Inr [OF s2]
    and C1 = os_close_Inr [OF c1] and R1 = os_remove_Inr [OF r1]
    and C2 = os_close_Inr [OF c2] and R2 = os_remove_Inr [OF r2]
    and C3 = os_close_Inr [OF c3] and R3 = os_remove_Inr [OF r3]
    and C4 = os_close_Inr [OF c4] and R4 = os_remove_Inr [OF r4]
  have fds: "set (open_fds w') \<subseteq> set (open_fds w3)"
    using C1 R1 C2 R2 C3 R3 C4 R4 by auto
  have fs: "files w' q = None" if "files w3 q = None" for q
    using that C1 R1 C2 R2 C3 R3 C4 R4 by auto
  show "tmp_log w' = tmp_log w"
    using S0 S1 S2 C1 R1 C2 R2 C3 R3 C4 R4 by simp
  show "cmd_log w' = cmd_log w @ [join '' '' args]"
    using S0 S1 S2 C1 R1 C2 R2 C3 R3 C4 R4 by simp
  show "files w' (train_path t) = None \<and> train_fd t \<notin> set (open_fds w')"
    using C1 R1 C2 R2 C3 R3 C4 R4 by auto
  show "files w' (test_path t) = None \<and> test_fd t \<notin> set (open_fds w')"
    using C2 R2 C3 R3 C4 R4 by auto
  show "files w' (model_path t) = None \<and> model_fd t \<notin> set (open_fds w')"
    using C3 R3 C4 R4 by auto
  show "files w' (out_path t) = None \<and> out_fd t \<notin> set (open_fds w')"
    using C4 R4 by auto
  show "fm_rlog self \<longrightarrow>
           (\<exists>fd p. rlog_tmp t = Some (fd, p) \<and> files w' p = None \<and> fd \<notin> set (open_fds w'))"
  proof
    assume "fm_rlog self"
    with S1 obtain fd p where h: "rlog_tmp t = Some (fd, p)" "files w2 p = None" "fd \<notin> set (open_fds w2)"
      by blast
    with S2 have "files w3 p = None" "fd \<notin> set (open_fds w3)" by blast+
    with fds fs h(1) show "\<exists>fd p. rlog_tmp t = Some (fd, p) \<and> files w' p = None \<and> fd \<notin> set (open_fds w')"
      by blast
  qed
  show "fm_learning_method self = ''sgda'' \<and> xv \<noteq> None \<and> yv \<noteq> None \<longrightarrow>
           (\<exists>fd p. validation_tmp t = Some (fd, p) \<and> files w' p = None \<and> fd \<notin> set (open_fds w'))"
  proof
    assume "fm_learning_method self = ''sgda'' \<and> xv \<noteq> None \<and> yv \<noteq> None"
    with S2 obtain fd p where h: "validation_tmp t = Some (fd, p)" "files w3 p = None" "fd \<notin> set (open_fds w3)"
      by blast
    with fds fs show "\<exists>fd p. validation_tmp t = Some (fd, p) \<and> files w' p = None \<and> fd \<notin> set (open_fds w')"
      by blast
  qed
qed

text \<open>
  Claim C3, as the code has it. When \<^verbatim>\<open>run\<close> returns a result, every temporary file
  it allocated (four, one more with \<^verbatim>\<open>self.__rlog\<close>, one more for \<^verbatim>\<open>sgda\<close> with a
  validation set) has been closed and removed: the entries that the call added to the
  history of \<^verbatim>\<open>mkstemp\<close> name no file that exists and no descriptor that is open.
\<close>

theorem temps_released_on_return:
  assumes "run E self x_train y_train x_test y_test xv yv w = (Inr r, w')"
  shows "\<exists>new. tmp_log w' = tmp_log w @ new \<and>
           length new = 4 + (if fm_rlog self then 1 else 0) +
             (if fm_learning_method self = ''sgda'' \<and> xv \<noteq> None \<and> yv \<noteq> None then 1 else 0) \<and>
           (\<forall>(fd, path)\<in>set new. files w' path = None \<and> fd \<notin> set (open_fds w'))"
proof -
  from assms obtain args t w1
    where b: "build_args E self x_train y_train x_test y_test xv yv w = (Inr (args, t), w1)"
      and f: "finish E self xv yv args t w1 = (Inr r, w')"
    by (auto simp: run_def bind_io_eq_Inr)
  note B = build_args_Inr [OF b] and F = finish_Inr [OF f]
  let ?new = "[(train_fd t, train_path t), (test_fd t, test_path t), (out_fd t, out_path t),
       (model_fd t, model_path t)] @
      (case rlog_tmp t of None \<Rightarrow> [] | Some x \<Rightarrow> [x]) @
      (case validation_tmp t of None \<Rightarrow> [] | Some x \<Rightarrow> [x])"
  have "tmp_log w' = tmp_log w @ ?new" using B(4) F(1) by simp
  moreover have "length ?new = 4 + (if fm_rlog self then 1 else 0) +
             (if fm_learning_method self = ''sgda'' \<and> xv \<noteq> None \<and> yv \<noteq> None then 1 else 0)"
    using B(2) B(3) by (cases "rlog_tmp t"; cases "validation_tmp t") auto
  moreover have "\<forall>(fd, path)\<in>set ?new. files w' path = None \<and> fd \<notin> set (open_fds w')"
    using B(2) B(3) F(3-8) by (cases "rlog_tmp t"; cases "validation_tmp t") auto
  ultimately show ?thesis by blast
qed

theorem temps_released_on_return_witness:
  "fst (ex_run ex_libfm ''mcmc'' None None) =
     Inr \<lparr>predictions = [3 / 2, 5 / 2], global_bias = Some 5, weights = [1, 2],
          pairwise_interactions = [[1 / 10, 1 / 5], [3 / 10, 2 / 5]],
          rlog_df = Some [[''rmse''], [''0.5'']]\<rparr> \<and>
   tmp_log ex_world = [] \<and>
   tmp_log (snd (ex_run ex_libfm ''mcmc'' None None)) =
     [(3, ''/tmp/a''), (4, ''/tmp/b''), (5, ''/tmp/c''), (6, ''/tmp/d''), (7, ''/tmp/e'')] \<and>
   list_all (\<lambda>(fd, path). files (snd (ex_run ex_libfm ''mcmc'' None None)) path = None \<and>
                fd \<notin> set (open_fds (snd (ex_run ex_libfm ''mcmc'' None None))))
     [(3, ''/tmp/a''), (4, ''/tmp/b''), (5, ''/tmp/c''), (6, ''/tmp/d''), (7, ''/tmp/e'')]"
proof -
  let ?w' = "snd (ex_run ex_libfm ''mcmc'' None None)"
  have r: "run (ex_externals ex_libfm) (ex_fm ''mcmc'') [''1:1''] [''0''] [''1:1''] [''0''] None None
      ex_world =
     (Inr \<lparr>predictions = [3 / 2, 5 / 2], global_bias = Some 5, weights = [1, 2],
          pairwise_interactions = [[1 / 10, 1 / 5], [3 / 10, 2 / 5]],
          rlog_df = Some [[''rmse''], [''0.5'']]\<rparr>, ?w')"
    using ex_run_ok(1) unfolding ex_run_def by (metis prod.collapse)
  from temps_released_on_return [OF r] obtain new
    where n: "tmp_log ?w' = tmp_log ex_world @ new"
      and g: "\<forall>(fd, path)\<in>set new. files ?w' path = None \<and> fd \<notin> set (open_fds ?w')"
    by blast
  from n have "new = [(3, ''/tmp/a''), (4, ''/tmp/b''), (5, ''/tmp/c''), (6, ''/tmp/d''), (7, ''/tmp/e'')]"
    by (simp add: ex_run_ok(2) ex_world_empty)
  with g have "list_all (\<lambda>(fd, path). files ?w' path = None \<and> fd \<notin> set (open_fds ?w'))
     [(3, ''/tmp/a''), (4, ''/tmp/b''), (5, ''/tmp/c''), (6, ''/tmp/d''), (7, ''/tmp/e'')]"
    by (simp only: list_all_iff)
  then show ?thesis
    using ex_run_ok(1,2) ex_world_empty(1) by blast
qed

text \<open>
  Claim C3 as the specification words it fails where \<^verbatim>\<open>run\<close> raises: the process
  leaves \<^verbatim>\<open>abc\<close> in the output file, \<^verbatim>\<open>float\<close> raises \<^verbatim>\<open>ValueError\<close> at line 197,
  and the exception leaves \<^verbatim>\<open>run\<close> before the clean-up of lines 226 to 249. The five
  files allocated by the call, none of which existed before, still exist afterwards, and
  their five descriptors are still open.
\<close>

theorem temps_leak_counterexample:
  "fst (ex_run ex_broken_libfm ''mcmc'' None None) = Inl ValueError \<and>
   tmp_log ex_world = [] \<and> files ex_world = Map.empty \<and> open_fds ex_world = [0, 1, 2] \<and>
   tmp_log (snd (ex_run ex_broken_libfm ''mcmc'' None None)) =
     [(3, ''/tmp/a''), (4, ''/tmp/b''), (5, ''/tmp/c''), (6, ''/tmp/d''), (7, ''/tmp/e'')] \<and>
   map (files (snd (ex_run ex_broken_libfm ''mcmc'' None None)))
       [''/tmp/a'', ''/tmp/b'', ''/tmp/c'', ''/tmp/d'', ''/tmp/e''] =
     [Some ''0 1:1\<newline>'', Some ''0 1:1\<newline>'', Some ''abc'', Some [], Some []] \<and>
   open_fds (snd (ex_run ex_broken_libfm ''mcmc'' None None)) = [7, 6, 5, 4, 3, 0, 1, 2]"
  using ex_run_broken ex_world_empty by simp

subsection \<open>When parsing fails\<close>

text \<open>
  Which exceptions each step can raise. \<^verbatim>\<open>ValueError\<close> comes from \<^verbatim>\<open>float\<close> only, so
  from the two parsers; the clean-up raises none of \<^verbatim>\<open>ValueError\<close>, \<^verbatim>\<open>MatrixError\<close> and
  \<^verbatim>\<open>ReadCsvError\<close>.
\<close>

lemma bind_io_eq_Inl:
  "bind_io m f w = (Inl e, w') \<longleftrightarrow>
     m w = (Inl e, w') \<or> (\<exists>x w1. m w = (Inr x, w1) \<and> f x w1 = (Inl e, w'))"
  by (auto simp: bind_io_def split: prod.splits sum.splits)

lemma os_close_Inl: "os_close fd w = (Inl e, w') \<Longrightarrow> e = BadFileDescriptor"
  by (auto simp: os_close_def split: if_splits)

lemma os_remove_Inl: "os_remove p w = (Inl e, w') \<Longrightarrow> e = FileNotFoundError"
  by (auto simp: os_remove_def split: if_splits)

lemma read_file_Inl: "read_file p w = (Inl e, w') \<Longrightarrow> e = FileNotFoundError"
  by (auto simp: read_file_def split: option.splits)

lemma float_all_Inl: "float_all float ps = Inl e \<Longrightarrow> e = ValueError"
  by (induction ps) (auto split: option.splits sum.splits)

lemma model_line_Inl: "model_line float st l = Inl e \<Longrightarrow> e = ValueError"
  by (cases st) (auto split: if_splits option.splits sum.splits dest: float_all_Inl)

lemma model_lines_Inl: "model_lines float st ls = Inl e \<Longrightarrow> e = ValueError"
  by (induction ls arbitrary: st) (auto split: sum.splits dest: model_line_Inl)

lemma read_model_Inl: "read_model float text = Inl e \<Longrightarrow> e = ValueError"
  by (auto simp: read_model_def split: sum.splits dest: model_lines_Inl)

lemma read_predictions_Inl: "read_predictions float text = Inl e \<Longrightarrow> e = ValueError"
  by (auto simp: read_predictions_def dest: float_all_Inl)

lemma parse_rlog_Inl:
  "parse_rlog E self t w = (Inl e, w') \<Longrightarrow>
     e \<in> {UnboundLocalError, FileNotFoundError, BadFileDescriptor} \<or> e = ReadCsvError \<and> w' = w"
  by (auto simp: parse_rlog_def bind_io_eq_Inl ret_def raise_def
      split: if_splits option.splits
      dest!: os_close_Inl os_remove_Inl read_file_Inl read_file_Inr)

lemma remove_validation_Inl:
  "remove_validation self xv yv t w = (Inl e, w') \<Longrightarrow>
     e \<in> {UnboundLocalError, FileNotFoundError, BadFileDescriptor}"
  by (auto simp: remove_validation_def bind_io_eq_Inl ret_def raise_def
      split: if_splits option.splits dest!: os_close_Inl os_remove_Inl)

lemma finish_parse_failure:
  assumes "finish E self xv yv args t w = (Inl e, w')"
      and "e \<in> {ValueError, MatrixError, ReadCsvError}"
  shows "open_fds w' = open_fds w \<and> tmp_log w' = tmp_log w"
  using assms
  by (auto simp: finish_def bind_io_eq_Inl call_def of_result_def ret_def raise_def
      split: option.splits prod.splits
      dest!: os_close_Inl os_remove_Inl read_file_Inl read_file_Inr
        read_predictions_Inl read_model_Inl parse_rlog_Inl remove_validation_Inl
        parse_rlog_Inr remove_validation_Inr)


lemma mkstemp_Inl: "mkstemp d w = (Inl e, w') \<Longrightarrow> e = MkstempError"
  by (auto simp: mkstemp_def Let_def split: list.splits)

lemma dump_svmlight_file_Inl: "dump_svmlight_file E X y p w = (Inl e, w') \<Longrightarrow> e = DumpError"
  by (auto simp: dump_svmlight_file_def split: option.splits)

lemma append_rlog_Inl: "append_rlog self args w = (Inl e, w') \<Longrightarrow> e = MkstempError"
  by (auto simp: append_rlog_def bind_io_eq_Inl ret_def split: if_splits prod.splits
      dest!: mkstemp_Inl)

lemma append_validation_Inl:
  "append_validation E self xv yv args w = (Inl e, w') \<Longrightarrow> e \<in> {MkstempError, DumpError}"
  by (auto simp: append_validation_def bind_io_eq_Inl ret_def
      split: if_splits option.splits prod.splits dest!: mkstemp_Inl dump_svmlight_file_Inl)

lemma build_args_Inl:
  "build_args E self x_train y_train x_test y_test xv yv w = (Inl e, w') \<Longrightarrow>
     e \<in> {MkstempError, DumpError}"
  by (auto simp: build_args_def bind_io_eq_Inl ret_def Let_def split: prod.splits
      dest!: mkstemp_Inl dump_svmlight_file_Inl append_rlog_Inl append_validation_Inl)

lemma append_rlog_fds:
  "append_rlog self args w = (Inr (h, args'), w') \<Longrightarrow>
     open_fds w' = (case h of None \<Rightarrow> [] | Some (fd, p) \<Rightarrow> [fd]) @ open_fds w"
  by (auto simp: append_rlog_def bind_io_eq_Inr ret_eq split: if_splits dest!: mkstemp_Inr)

lemma append_validation_fds:
  "append_validation E self xv yv args w = (Inr (h, args'), w') \<Longrightarrow>
     open_fds w' = (case h of None \<Rightarrow> [] | Some (fd, p) \<Rightarrow> [fd]) @ open_fds w"
  by (auto simp: append_validation_def bind_io_eq_Inr ret_eq
      split: if_splits option.splits dest!: mkstemp_Inr dump_svmlight_file_Inr)

lemma build_args_fds:
  assumes "build_args E self x_train y_train x_test y_test xv yv w = (Inr (args, t), w')"
  shows "open_fds w' =
      (case validation_tmp t of None \<Rightarrow> [] | Some (fd, p) \<Rightarrow> [fd]) @
      (case rlog_tmp t of None \<Rightarrow> [] | Some (fd, p) \<Rightarrow> [fd]) @
      [model_fd t, out_fd t, test_fd t, train_fd t] @ open_fds w"
proof -
  from build_args_steps [OF assms] obtain w1 w2 w3 w4 w5 w6 w7 u1 u2 args0 args1 args3 args4
    where m1: "mkstemp (fm_temp_path self) w = (Inr (train_fd t, train_path t), w1)"
      and m2: "mkstemp (fm_temp_path self) w1 = (Inr (test_fd t, test_path t), w2)"
      and m3: "mkstemp (fm_temp_path self) w2 = (Inr (out_fd t, out_path t), w3)"
      and m4: "mkstemp (fm_temp_path self) w3 = (Inr (model_fd t, model_path t), w4)"
      and d1: "dump_svmlight_file E x_train y_train (train_path t) w4 = (Inr u1, w5)"
      and d2: "dump_svmlight_file E x_test y_test (test_path t) w5 = (Inr u2, w6)"
      and r: "append_rlog self args0 w6 = (Inr (rlog_tmp t, args1), w7)"
      and v: "append_validation E self xv yv args3 w7 = (Inr (validation_tmp t, args4), w')"
    by blast
  show ?thesis
    using mkstemp_Inr [OF m1] mkstemp_Inr [OF m2] mkstemp_Inr [OF m3] mkstemp_Inr [OF m4]
      dump_svmlight_file_Inr [OF d1] dump_svmlight_file_Inr [OF d2]
      append_rlog_fds [OF r] append_validation_fds [OF v]
    by simp
qed

text \<open>
  The general form of the example above: when \<^verbatim>\<open>run\<close> raises because \<^verbatim>\<open>float\<close>,
  \<^verbatim>\<open>np.matrix\<close> or \<^verbatim>\<open>pd.read_csv\<close> raised, every descriptor that the call allocated
  is still open when the exception leaves \<^verbatim>\<open>run\<close>: nothing was closed.
\<close>

lemma parse_failure_keeps_temps:
  assumes "run E self x_train y_train x_test y_test xv yv w = (Inl e, w')"
      and "e \<in> {ValueError, MatrixError, ReadCsvError}"
  shows "\<exists>new. tmp_log w' = tmp_log w @ new \<and>
           length new = 4 + (if fm_rlog self then 1 else 0) +
             (if fm_learning_method self = ''sgda'' \<and> xv \<noteq> None \<and> yv \<noteq> None then 1 else 0) \<and>
           (\<forall>(fd, path)\<in>set new. fd \<in> set (open_fds w'))"
proof -
  from assms obtain args t w1
    where b: "build_args E self x_train y_train x_test y_test xv yv w = (Inr (args, t), w1)"
      and f: "finish E self xv yv args t w1 = (Inl e, w')"
    by (auto simp: run_def bind_io_eq_Inl dest!: build_args_Inl)
  note B = build_args_Inr [OF b] and O = build_args_fds [OF b]
    and F = finish_parse_failure [OF f assms(2)]
  let ?new = "[(train_fd t, train_path t), (test_fd t, test_path t), (out_fd t, out_path t),
       (model_fd t, model_path t)] @
      (case rlog_tmp t of None \<Rightarrow> [] | Some x \<Rightarrow> [x]) @
      (case validation_tmp t of None \<Rightarrow> [] | Some x \<Rightarrow> [x])"
  have "tmp_log w' = tmp_log w @ ?new" using B(4) F by simp
  moreover have "length ?new = 4 + (if fm_rlog self then 1 else 0) +
             (if fm_learning_method self = ''sgda'' \<and> xv \<noteq> None \<and> yv \<noteq> None then 1 else 0)"
    using B(2) B(3) by (cases "rlog_tmp t"; cases "validation_tmp t") auto
  moreover have "\<forall>(fd, path)\<in>set ?new. fd \<in> set (open_fds w')"
    using F O by (cases "rlog_tmp t"; cases "validation_tmp t") auto
  ultimately show ?thesis by blast
qed

end
